theory Spec2Isabelle
  imports Main "HOL-Library.Word"
begin

section \<open>JavaScript strings and values\<close>

text \<open>
  A JavaScript string is a sequence of UTF-16 code units; \<open>===\<close>, \<open>trim\<close>,
  \<open>includes\<close> and \<open>length\<close> all work on code units. ASCII literals of the
  sources are written with \<open>ascii\<close>, the Korean and emoji literals as their code units
  (the comment beside each one translates it).
\<close>

type_synonym jsstring = "16 word list"

definition ascii :: "string \<Rightarrow> jsstring" where
  "ascii s = map (\<lambda>c. of_nat (of_char c)) s"

text \<open>
  What the backend sends is typed \<open>any\<close> in the client and never validated, so it is
  modelled as the value \<open>JSON.parse\<close> produces, plus \<open>undefined\<close> for a missing
  property. An object is the association list of its properties (\<open>map_of\<close> reads it).
  Of the numbers only the integers are modelled.
\<close>

datatype json =
    JUndefined
  | JNull
  | JBool bool
  | JNum int
  | JStr jsstring
  | JArr "json list"
  | JObj "(jsstring \<times> json) list"

text \<open>\<open>ToBoolean\<close>: what \<open>||\<close>, \<open>!\<close> and \<open>if\<close> test.\<close>

fun js_truthy :: "json \<Rightarrow> bool" where
  "js_truthy JUndefined = False"
| "js_truthy JNull = False"
| "js_truthy (JBool b) = b"
| "js_truthy (JNum n) = (n \<noteq> 0)"
| "js_truthy (JStr s) = (s \<noteq> [])"
| "js_truthy (JArr xs) = True"
| "js_truthy (JObj fs) = True"

text \<open>\<open>a || b\<close> on values (both operands here are free of effects).\<close>

definition js_or :: "json \<Rightarrow> json \<Rightarrow> json" where
  "js_or a b = (if js_truthy a then a else b)"

text \<open>
  The property read \<open>v.k\<close> for the data keys the client reads (\<open>documents\<close>,
  \<open>answer\<close>, \<open>response\<close>, \<open>summary\<close>, \<open>document_id\<close>, \<open>filename\<close>,
  \<open>status\<close>, \<open>created_at\<close>, \<open>length\<close>), none of which is a method of a
  prototype. Reading a property of \<open>undefined\<close> or \<open>null\<close> throws a TypeError:
  the result \<open>None\<close>.
\<close>

fun js_get :: "json \<Rightarrow> jsstring \<Rightarrow> json option" where
  "js_get JUndefined k = None"
| "js_get JNull k = None"
| "js_get (JBool b) k = Some JUndefined"
| "js_get (JNum n) k = Some JUndefined"
| "js_get (JStr s) k = Some (if k = ascii ''length'' then JNum (int (length s)) else JUndefined)"
| "js_get (JArr xs) k = Some (if k = ascii ''length'' then JNum (int (length xs)) else JUndefined)"
| "js_get (JObj fs) k = Some (case map_of fs k of None \<Rightarrow> JUndefined | Some v \<Rightarrow> v)"

text \<open>The element read \<open>v[0]\<close> of a value that is neither \<open>undefined\<close> nor \<open>null\<close>.\<close>

fun js_index0 :: "json \<Rightarrow> json" where
  "js_index0 (JArr xs) = (case xs of [] \<Rightarrow> JUndefined | x # _ \<Rightarrow> x)"
| "js_index0 (JStr s) = (case s of [] \<Rightarrow> JUndefined | c # _ \<Rightarrow> JStr [c])"
| "js_index0 (JObj fs) = (case map_of fs (ascii ''0'') of None \<Rightarrow> JUndefined | Some v \<Rightarrow> v)"
| "js_index0 v = JUndefined"

text \<open>\<open>Number.prototype.toString\<close> of a non-negative integer: its decimal digits.\<close>

fun show_nat :: "nat \<Rightarrow> jsstring" where
  "show_nat n = (if n < 10 then [of_nat (48 + n)] else show_nat (n div 10) @ [of_nat (48 + n mod 10)])"

text \<open>
  \<open>String.prototype.trim\<close> removes the WhiteSpace and LineTerminator code points of
  ECMAScript from both ends; all of them are single code units.
\<close>

definition is_js_space :: "16 word \<Rightarrow> bool" where
  "is_js_space c \<longleftrightarrow>
     c \<in> {0x0009, 0x000A, 0x000B, 0x000C, 0x000D, 0x0020, 0x00A0, 0x1680,
          0x2028, 0x2029, 0x202F, 0x205F, 0x3000, 0xFEFF}
     \<or> (0x2000 \<le> c \<and> c \<le> 0x200A)"

definition js_trim :: "jsstring \<Rightarrow> jsstring" where
  "js_trim s = rev (dropWhile is_js_space (rev (dropWhile is_js_space s)))"

text \<open>\<open>String.prototype.includes\<close>: the needle occurs as a contiguous run.\<close>

fun starts_with :: "jsstring \<Rightarrow> jsstring \<Rightarrow> bool" where
  "starts_with s [] = True"
| "starts_with [] (c # cs) = False"
| "starts_with (d # ds) (c # cs) = (d = c \<and> starts_with ds cs)"

fun js_includes :: "jsstring \<Rightarrow> jsstring \<Rightarrow> bool" where
  "js_includes [] needle = (needle = [])"
| "js_includes (d # ds) needle = (starts_with (d # ds) needle \<or> js_includes ds needle)"

text \<open>
  JavaScript's \<open>%\<close> truncates towards zero: the result has the sign of the dividend.
\<close>

definition js_rem :: "int \<Rightarrow> int \<Rightarrow> int" where
  "js_rem a b = sgn a * (\<bar>a\<bar> mod \<bar>b\<bar>)"

section \<open>The string literals of the screens\<close>

definition greeting :: jsstring where \<comment> \<open>the greeting of the assistant, ChatScreen line 46\<close>
  "greeting = [0xC548, 0xB155, 0xD558, 0xC138, 0xC694, 0x0021, 0x0020, 0xC5C5, 0xB85C,
     0xB4DC, 0xD55C, 0x0020, 0xBB38, 0xC11C, 0xC5D0, 0x0020, 0xB300, 0xD574, 0x0020, 0xAD81,
     0xAE08, 0xD55C, 0x0020, 0xC810, 0xC744, 0x0020, 0xBB3C, 0xC5B4, 0xBCF4, 0xC138, 0xC694,
     0x0020, 0xD83D, 0xDE0A, 0x000A, 0x000A, 0xD83D, 0xDCC4, 0x0020, 0xBD84, 0xC11D, 0xB41C,
     0x0020, 0xBB38, 0xC11C, 0xAC00, 0x0020, 0xC788, 0xB2E4, 0xBA74, 0x0020, 0xD574, 0xB2F9,
     0x0020, 0xBB38, 0xC11C, 0xC758, 0x0020, 0xB0B4, 0xC6A9, 0xC744, 0x0020, 0xBC14, 0xD0D5,
     0xC73C, 0xB85C, 0x0020, 0xB2F5, 0xBCC0, 0xB4DC, 0xB9B4, 0xAC8C, 0xC694, 0x0021]"

definition system_message_prefix :: jsstring where \<comment> \<open>a page emoji, a space and a double quote\<close>
  "system_message_prefix = [0xD83D, 0xDCC4, 0x0020, 0x0022]"

definition system_message_suffix :: jsstring where \<comment> \<open>double quote, then: document was selected automatically, you can ask about it now\<close>
  "system_message_suffix = [0x0022, 0x0020, 0xBB38, 0xC11C, 0xAC00, 0x0020, 0xC790, 0xB3D9,
     0xC73C, 0xB85C, 0x0020, 0xC120, 0xD0DD, 0xB418, 0xC5C8, 0xC2B5, 0xB2C8, 0xB2E4, 0x002E,
     0x0020, 0xC774, 0xC81C, 0x0020, 0xC774, 0x0020, 0xBB38, 0xC11C, 0xC5D0, 0x0020, 0xB300,
     0xD574, 0x0020, 0xC9C8, 0xBB38, 0xD560, 0x0020, 0xC218, 0x0020, 0xC788, 0xC5B4, 0xC694,
     0x0021]"

definition msg_no_answer :: jsstring where \<comment> \<open>the fallback: no AI reply was received\<close>
  "msg_no_answer = [0x0041, 0x0049, 0x0020, 0xC751, 0xB2F5, 0xC744, 0x0020, 0xBC1B, 0xC9C0,
     0x0020, 0xBABB, 0xD588, 0xC2B5, 0xB2C8, 0xB2E4, 0x002E]"

definition msg_timeout :: jsstring where \<comment> \<open>alarm clock emoji; the reply timed out, please try again\<close>
  "msg_timeout = [0x23F0, 0x0020, 0xC751, 0xB2F5, 0x0020, 0xC2DC, 0xAC04, 0xC774, 0x0020,
     0xCD08, 0xACFC, 0xB418, 0xC5C8, 0xC2B5, 0xB2C8, 0xB2E4, 0x002E, 0x0020, 0xB2E4, 0xC2DC,
     0x0020, 0xC2DC, 0xB3C4, 0xD574, 0xC8FC, 0xC138, 0xC694, 0x002E]"

definition msg_not_found :: jsstring where \<comment> \<open>page emoji; first upload and analyze a document, then you can ask about it\<close>
  "msg_not_found = [0xD83D, 0xDCC4, 0x0020, 0xBA3C, 0xC800, 0x0020, 0xBB38, 0xC11C, 0xB97C,
     0x0020, 0xC5C5, 0xB85C, 0xB4DC, 0xD558, 0xACE0, 0x0020, 0xBD84, 0xC11D, 0xD574, 0xC8FC,
     0xC138, 0xC694, 0x002E, 0x0020, 0xADF8, 0xB798, 0xC57C, 0x0020, 0xD574, 0xB2F9, 0x0020,
     0xBB38, 0xC11C, 0xC5D0, 0x0020, 0xB300, 0xD574, 0x0020, 0xC9C8, 0xBB38, 0xD560, 0x0020,
     0xC218, 0x0020, 0xC788, 0xC5B4, 0xC694, 0x0021]"

definition msg_server_error :: jsstring where \<comment> \<open>wrench emoji; the server has a temporary problem, try again in a moment\<close>
  "msg_server_error = [0xD83D, 0xDD27, 0x0020, 0xC11C, 0xBC84, 0xC5D0, 0x0020, 0xC77C,
     0xC2DC, 0xC801, 0xC778, 0x0020, 0xBB38, 0xC81C, 0xAC00, 0x0020, 0xBC1C, 0xC0DD, 0xD588,
     0xC2B5, 0xB2C8, 0xB2E4, 0x002E, 0x0020, 0xC7A0, 0xC2DC, 0x0020, 0xD6C4, 0x0020, 0xB2E4,
     0xC2DC, 0x0020, 0xC2DC, 0xB3C4, 0xD574, 0xC8FC, 0xC138, 0xC694, 0x002E]"

definition msg_connection_error_prefix :: jsstring where \<comment> \<open>cross mark emoji; connection error, colon, space\<close>
  "msg_connection_error_prefix = [0x274C, 0x0020, 0xC5F0, 0xACB0, 0x0020, 0xC624, 0xB958,
     0x003A, 0x0020]"

definition msg_unexpected_error :: jsstring where \<comment> \<open>sorry, a temporary error occurred, try again in a moment; robot emoji\<close>
  "msg_unexpected_error = [0xC8C4, 0xC1A1, 0xD574, 0xC694, 0x002C, 0x0020, 0xC77C, 0xC2DC,
     0xC801, 0xC778, 0x0020, 0xC624, 0xB958, 0xAC00, 0x0020, 0xBC1C, 0xC0DD, 0xD588, 0xC2B5,
     0xB2C8, 0xB2E4, 0x002E, 0x0020, 0xC7A0, 0xC2DC, 0x0020, 0xD6C4, 0x0020, 0xB2E4, 0xC2DC,
     0x0020, 0xC2DC, 0xB3C4, 0xD574, 0xC8FC, 0xC138, 0xC694, 0x002E, 0x0020, 0xD83E, 0xDD16]"

definition label_analysis_done :: jsstring where \<comment> \<open>DocumentListScreen label: analysis complete (with a space)\<close>
  "label_analysis_done = [0xBD84, 0xC11D, 0x0020, 0xC644, 0xB8CC]"

definition label_analyzing :: jsstring where \<comment> \<open>DocumentListScreen label: analyzing (with a space)\<close>
  "label_analyzing = [0xBD84, 0xC11D, 0x0020, 0xC911]"

definition label_uploaded :: jsstring where \<comment> \<open>DocumentListScreen label: upload complete (with a space)\<close>
  "label_uploaded = [0xC5C5, 0xB85C, 0xB4DC, 0x0020, 0xC644, 0xB8CC]"

definition legacy_analysis_done :: jsstring where \<comment> \<open>legacy status value: analysis complete (no space)\<close>
  "legacy_analysis_done = [0xBD84, 0xC11D, 0xC644, 0xB8CC]"

definition legacy_analyzing :: jsstring where \<comment> \<open>legacy status value: analyzing (no space)\<close>
  "legacy_analyzing = [0xBD84, 0xC11D, 0xC911]"

definition legacy_uploaded :: jsstring where \<comment> \<open>legacy status value: upload complete (no space)\<close>
  "legacy_uploaded = [0xC5C5, 0xB85C, 0xB4DC, 0xC644, 0xB8CC]"

definition icon_done :: jsstring where \<comment> \<open>check mark emoji\<close>
  "icon_done = [0x2705]"

definition icon_analyzing :: jsstring where \<comment> \<open>arrows emoji\<close>
  "icon_analyzing = [0xD83D, 0xDD04]"

definition icon_default :: jsstring where \<comment> \<open>page emoji\<close>
  "icon_default = [0xD83D, 0xDCC4]"

definition alert_analysis_done_title :: jsstring where \<comment> \<open>analysis complete, exclamation mark\<close>
  "alert_analysis_done_title = [0xBD84, 0xC11D, 0x0020, 0xC644, 0xB8CC, 0x0021]"

definition alert_analysis_done_prefix :: jsstring where \<comment> \<open>the analysis has completed, colon, newline\<close>
  "alert_analysis_done_prefix = [0xBD84, 0xC11D, 0xC774, 0x0020, 0xC644, 0xB8CC, 0xB418,
     0xC5C8, 0xC2B5, 0xB2C8, 0xB2E4, 0x003A, 0x000A]"

definition alert_analysis_done_default :: jsstring where \<comment> \<open>check the analysis result\<close>
  "alert_analysis_done_default = [0xBD84, 0xC11D, 0x0020, 0xACB0, 0xACFC, 0xB97C, 0x0020,
     0xD655, 0xC778, 0xD558, 0xC138, 0xC694, 0x002E]"

definition alert_analysis_failed_title :: jsstring where \<comment> \<open>analysis failed\<close>
  "alert_analysis_failed_title = [0xBD84, 0xC11D, 0x0020, 0xC2E4, 0xD328]"

definition alert_analysis_failed_prefix :: jsstring where \<comment> \<open>an error occurred during the analysis, colon, space\<close>
  "alert_analysis_failed_prefix = [0xBD84, 0xC11D, 0x0020, 0xC911, 0x0020, 0xC624, 0xB958,
     0xAC00, 0x0020, 0xBC1C, 0xC0DD, 0xD588, 0xC2B5, 0xB2C8, 0xB2E4, 0x003A, 0x0020]"

definition noti_complete_title :: jsstring where \<comment> \<open>check mark emoji; analysis complete\<close>
  "noti_complete_title = [0x2705, 0x0020, 0xBD84, 0xC11D, 0x0020, 0xC644, 0xB8CC]"

definition noti_complete_suffix :: jsstring where \<comment> \<open>space; the analysis has finished\<close>
  "noti_complete_suffix = [0x0020, 0xBD84, 0xC11D, 0xC774, 0x0020, 0xB05D, 0xB0AC, 0xC2B5,
     0xB2C8, 0xB2E4, 0x002E]"

definition welcome_title :: jsstring where \<comment> \<open>waving hand emoji; welcome\<close>
  "welcome_title = [0xD83D, 0xDC4B, 0x0020, 0xD658, 0xC601, 0xD569, 0xB2C8, 0xB2E4]"

definition welcome_message :: jsstring where \<comment> \<open>welcome to AI LIFE; upload a document and get an AI analysis\<close>
  "welcome_message = [0x0041, 0x0049, 0x0020, 0x004C, 0x0049, 0x0046, 0x0045, 0xC5D0, 0x0020,
     0xC624, 0xC2E0, 0x0020, 0xAC83, 0xC744, 0x0020, 0xD658, 0xC601, 0xD569, 0xB2C8, 0xB2E4,
     0x0021, 0x0020, 0xBB38, 0xC11C, 0xB97C, 0x0020, 0xC5C5, 0xB85C, 0xB4DC, 0xD558, 0xACE0,
     0x0020, 0x0041, 0x0049, 0x0020, 0xBD84, 0xC11D, 0xC744, 0x0020, 0xBC1B, 0xC544, 0xBCF4,
     0xC138, 0xC694, 0x002E]"

definition welcome_date :: jsstring where \<comment> \<open>now\<close>
  "welcome_date = [0xC9C0, 0xAE08]"

definition status_select_file :: jsstring where \<comment> \<open>please choose a file\<close>
  "status_select_file = [0xD30C, 0xC77C, 0xC744, 0x0020, 0xC120, 0xD0DD, 0xD574, 0xC8FC,
     0xC138, 0xC694]"

definition status_choosing :: jsstring where \<comment> \<open>choosing a file...\<close>
  "status_choosing = [0xD30C, 0xC77C, 0x0020, 0xC120, 0xD0DD, 0x0020, 0xC911, 0x002E, 0x002E,
     0x002E]"

definition status_canceled :: jsstring where \<comment> \<open>the file choice was canceled\<close>
  "status_canceled = [0xD30C, 0xC77C, 0x0020, 0xC120, 0xD0DD, 0xC774, 0x0020, 0xCDE8, 0xC18C,
     0xB418, 0xC5C8, 0xC2B5, 0xB2C8, 0xB2E4, 0x002E]"

definition status_uploading_prefix :: jsstring where \<comment> \<open>uploading, colon, space\<close>
  "status_uploading_prefix = [0xC5C5, 0xB85C, 0xB4DC, 0x0020, 0xC911, 0x003A, 0x0020]"

definition status_success_prefix :: jsstring where \<comment> \<open>check mark emoji; upload succeeded, file, colon, space\<close>
  "status_success_prefix = [0x2705, 0x0020, 0xC5C5, 0xB85C, 0xB4DC, 0x0020, 0xC131, 0xACF5,
     0x0021, 0x0020, 0xD30C, 0xC77C, 0x003A, 0x0020]"

definition alert_success_title :: jsstring where \<comment> \<open>success, exclamation mark\<close>
  "alert_success_title = [0xC131, 0xACF5, 0x0021]"

definition alert_success_message :: jsstring where \<comment> \<open>the file was uploaded; party emoji; newline; go to the document list?\<close>
  "alert_success_message = [0xD30C, 0xC77C, 0xC774, 0x0020, 0xC131, 0xACF5, 0xC801, 0xC73C,
     0xB85C, 0x0020, 0xC5C5, 0xB85C, 0xB4DC, 0xB418, 0xC5C8, 0xC2B5, 0xB2C8, 0xB2E4, 0x0021,
     0x0020, 0xD83C, 0xDF89, 0x000A, 0xBB38, 0xC11C, 0x0020, 0xBAA9, 0xB85D, 0xC73C, 0xB85C,
     0x0020, 0xC774, 0xB3D9, 0xD560, 0xAE4C, 0xC694, 0x003F]"

definition status_failed_prefix :: jsstring where \<comment> \<open>cross mark emoji; upload failed, colon, space\<close>
  "status_failed_prefix = [0x274C, 0x0020, 0xC5C5, 0xB85C, 0xB4DC, 0x0020, 0xC2E4, 0xD328,
     0x003A, 0x0020]"

definition alert_error_title :: jsstring where \<comment> \<open>error\<close>
  "alert_error_title = [0xC624, 0xB958]"

definition alert_error_prefix :: jsstring where \<comment> \<open>the upload failed, colon, space\<close>
  "alert_error_prefix = [0xC5C5, 0xB85C, 0xB4DC, 0xC5D0, 0x0020, 0xC2E4, 0xD328, 0xD588,
     0xC2B5, 0xB2C8, 0xB2E4, 0x003A, 0x0020]"

section \<open>Status display (DocumentListScreen.tsx, HomeScreen.tsx)\<close>

text \<open>
  A \<open>switch\<close> compares with \<open>===\<close>: a case matches when the status is that very
  string. The status comes from the backend's JSON, so the functions are defined on every
  value; whatever is not one of the listed strings takes the \<open>default\<close> branch.
\<close>

definition DocumentList_getStatusText :: "json \<Rightarrow> jsstring" where
  "DocumentList_getStatusText s =
     (if s = JStr (ascii ''completed'') \<or> s = JStr (ascii ''analyzed'')
         \<or> s = JStr legacy_analysis_done then label_analysis_done
      else if s = JStr (ascii ''analyzing'') \<or> s = JStr (ascii ''reanalyzing'')
        then label_analyzing
      else if s = JStr (ascii ''uploaded'') then label_uploaded
      else label_uploaded)"

definition DocumentList_getStatusColor :: "json \<Rightarrow> jsstring" where
  "DocumentList_getStatusColor s =
     (if s = JStr legacy_analysis_done \<or> s = JStr label_analysis_done
         \<or> s = JStr (ascii ''completed'') \<or> s = JStr (ascii ''analyzed'')
        then ascii ''#4CAF50''
      else if s = JStr legacy_analyzing \<or> s = JStr label_analyzing
         \<or> s = JStr (ascii ''analyzing'') \<or> s = JStr (ascii ''reanalyzing'')
        then ascii ''#FF9800''
      else if s = JStr legacy_uploaded \<or> s = JStr label_uploaded
         \<or> s = JStr (ascii ''uploaded'')
        then ascii ''#2196F3''
      else ascii ''#666'')"

definition DocumentList_getStatusIcon :: "json \<Rightarrow> jsstring" where
  "DocumentList_getStatusIcon s =
     (if s = JStr legacy_analysis_done \<or> s = JStr (ascii ''completed'')
         \<or> s = JStr (ascii ''analyzed'') then icon_done
      else if s = JStr legacy_analyzing \<or> s = JStr (ascii ''analyzing'')
         \<or> s = JStr (ascii ''reanalyzing'') then icon_analyzing
      else icon_default)"

text \<open>The badge of a document card: \<open>getStatusColor(getStatusText(doc.status))\<close>.\<close>

definition statusBadge_color :: "json \<Rightarrow> jsstring" where
  "statusBadge_color s = DocumentList_getStatusColor (JStr (DocumentList_getStatusText s))"

definition Home_getStatusColor :: "json \<Rightarrow> jsstring" where
  "Home_getStatusColor s =
     (if s = JStr legacy_analysis_done \<or> s = JStr (ascii ''completed'')
         \<or> s = JStr (ascii ''analyzed'') then ascii ''#4CAF50''
      else if s = JStr legacy_analyzing \<or> s = JStr (ascii ''analyzing'')
        then ascii ''#FF9800''
      else if s = JStr legacy_uploaded \<or> s = JStr (ascii ''uploaded'')
        then ascii ''#2196F3''
      else ascii ''#999'')"

text \<open>HomeScreen's \<open>default\<close> branch returns the status as it came.\<close>

definition Home_getStatusText :: "json \<Rightarrow> json" where
  "Home_getStatusText s =
     (if s = JStr (ascii ''completed'') then JStr legacy_analysis_done
      else if s = JStr (ascii ''analyzing'') then JStr legacy_analyzing
      else if s = JStr (ascii ''uploaded'') then JStr legacy_uploaded
      else s)"

section \<open>Requests, responses and errors\<close>

datatype http_method = GET | POST

text \<open>The file part that handleUpload appends to its FormData: \<open>{ uri, type, name }\<close>.\<close>

record form_file =
  file_uri :: jsstring
  file_type :: jsstring
  file_name :: jsstring

datatype request_body = NoBody | JsonBody json | FormData "(jsstring \<times> form_file) list"

text \<open>
  A call of \<open>axios.get\<close> or \<open>axios.post\<close>: the URL, the body and the
  configuration object. \<open>timeout\<close> is in milliseconds, \<open>None\<close> when the call
  passes none.
\<close>

record request =
  http_method :: http_method
  url :: jsstring
  body :: request_body
  timeout :: "nat option"
  headers :: "(jsstring \<times> jsstring) list"

record http_response =
  status :: int
  data :: json

text \<open>
  An error object as the \<open>catch\<close> blocks read it: \<open>error.code\<close>,
  \<open>error.response?.status\<close> and \<open>error.message\<close>. axios rejects with such an
  object (its \<open>code\<close> is \<open>ECONNABORTED\<close> when the timeout of the request has
  passed; \<open>response\<close> is there when the server answered with an error status).
\<close>

record js_error =
  code :: "jsstring option"
  response :: "http_response option"
  message :: jsstring

text \<open>A TypeError thrown by the engine has neither a code nor a response.\<close>

definition type_error :: "jsstring \<Rightarrow> js_error" where
  "type_error m = \<lparr>code = None, response = None, message = m\<rparr>"

text \<open>
  The backend is a parameter: what the awaited axios call does with each request, a
  rejection (\<open>Inl\<close>) or a response (\<open>Inr\<close>). Every call is recorded in a log
  of the requests sent.
\<close>

type_synonym network = "request \<Rightarrow> js_error + http_response"

definition axios :: "network \<Rightarrow> request \<Rightarrow> request list \<Rightarrow> (js_error + http_response) \<times> request list" where
  "axios net r log = (net r, log @ [r])"

text \<open>
  What the JavaScript engine decides and this theory does not compute is a parameter as
  well: the wording of a TypeError (for a value and the property that could not be read or
  called), \<open>ToString\<close> of an array, an object or a number beyond the safe integers,
  and the comparison \<open>v > 0\<close> for a string, an array or an object (both can throw;
  \<open>Inl\<close> carries the message).
\<close>

record js_engine =
  type_error_text :: "json \<Rightarrow> jsstring \<Rightarrow> jsstring"
  to_string :: "json \<Rightarrow> jsstring + jsstring"
  greater_than_zero :: "json \<Rightarrow> jsstring + bool"

text \<open>The property read \<open>v.k\<close> with the error it throws.\<close>

definition js_read :: "js_engine \<Rightarrow> json \<Rightarrow> jsstring \<Rightarrow> js_error + json" where
  "js_read eng v k =
     (case js_get v k of
        None \<Rightarrow> Inl (type_error (type_error_text eng v k))
      | Some x \<Rightarrow> Inr x)"

text \<open>A value inside a template literal: \<open>`${v}`\<close>.\<close>

fun js_template :: "js_engine \<Rightarrow> json \<Rightarrow> js_error + jsstring" where
  "js_template eng JUndefined = Inr (ascii ''undefined'')"
| "js_template eng JNull = Inr (ascii ''null'')"
| "js_template eng (JBool b) = Inr (if b then ascii ''true'' else ascii ''false'')"
| "js_template eng (JNum n) =
     (if \<bar>n\<bar> < 2 ^ 53
      then Inr (if n < 0 then ascii ''-'' @ show_nat (nat (- n)) else show_nat (nat n))
      else case to_string eng (JNum n) of Inl m \<Rightarrow> Inl (type_error m) | Inr s \<Rightarrow> Inr s)"
| "js_template eng (JStr s) = Inr s"
| "js_template eng v =
     (case to_string eng v of Inl m \<Rightarrow> Inl (type_error m) | Inr s \<Rightarrow> Inr s)"

text \<open>The comparison \<open>v > 0\<close>.\<close>

fun js_gt0 :: "js_engine \<Rightarrow> json \<Rightarrow> js_error + bool" where
  "js_gt0 eng JUndefined = Inr False"
| "js_gt0 eng JNull = Inr False"
| "js_gt0 eng (JBool b) = Inr b"
| "js_gt0 eng (JNum n) = Inr (0 < n)"
| "js_gt0 eng v =
     (case greater_than_zero eng v of Inl m \<Rightarrow> Inl (type_error m) | Inr b \<Rightarrow> Inr b)"

text \<open>The test \<open>v.length > 0\<close>.\<close>

definition js_length_gt0 :: "js_engine \<Rightarrow> json \<Rightarrow> js_error + bool" where
  "js_length_gt0 eng v =
     (case js_read eng v (ascii ''length'') of
        Inl e \<Rightarrow> Inl e
      | Inr n \<Rightarrow> js_gt0 eng n)"

definition BACKEND_URL :: jsstring where
  "BACKEND_URL = ascii ''https://govbrief-production.up.railway.app''"

section \<open>ChatScreen.tsx\<close>

text \<open>
  \<open>interface ChatMessage\<close>. The text of a reply is whatever sendMessageToBackend
  returned, which can be any value of the backend's JSON, so the field holds a value.
\<close>

record ChatMessage =
  msg_id :: jsstring
  msg_text :: json
  isUser :: bool
  timestamp :: nat

text \<open>
  The \<open>useState\<close> cells of the component (\<open>message_input\<close> is the cell
  \<open>message\<close> of the input field).
\<close>

record chat_state =
  isSearchMode :: bool
  searchText :: jsstring
  foundIds :: "jsstring list"
  currentMatchIndex :: int
  message_input :: jsstring
  messages :: "ChatMessage list"
  isTyping :: bool
  currentDocumentId :: json

text \<open>The initial values; \<open>now\<close> is \<open>Date.now()\<close> at the first render.\<close>

definition chat_initial :: "nat \<Rightarrow> chat_state" where
  "chat_initial now =
     \<lparr>isSearchMode = False, searchText = [], foundIds = [], currentMatchIndex = 0,
      message_input = [],
      messages = [\<lparr>msg_id = ascii ''1'', msg_text = JStr greeting, isUser = False,
                   timestamp = now\<rparr>],
      isTyping = False, currentDocumentId = JNull\<rparr>"

subsection \<open>fetchLatestDocument\<close>

text \<open>This call passes no configuration object.\<close>

definition latest_document_request :: request where
  "latest_document_request =
     \<lparr>http_method = GET, url = BACKEND_URL @ ascii ''/api/v1/documents/'', body = NoBody,
      timeout = None, headers = []\<rparr>"

text \<open>\<open>const docs = response.data.documents || [];\<close>\<close>

definition Chat_docs :: "js_engine \<Rightarrow> json \<Rightarrow> js_error + json" where
  "Chat_docs eng d =
     (case js_read eng d (ascii ''documents'') of
        Inl e \<Rightarrow> Inl e
      | Inr x \<Rightarrow> Inr (js_or x (JArr [])))"

text \<open>
  The body of the \<open>try\<close> block after the response has arrived. An exception leaves
  the block; the \<open>catch\<close> only logs it, so the state is the one reached so far.
  \<open>t_id\<close> and \<open>t_stamp\<close> are the two readings of \<open>Date.now()\<close>.
\<close>

definition select_latest :: "js_engine \<Rightarrow> nat \<Rightarrow> nat \<Rightarrow> json \<Rightarrow> chat_state \<Rightarrow> chat_state" where
  "select_latest eng t_id t_stamp d st =
     (case Chat_docs eng d of
        Inl e \<Rightarrow> st
      | Inr docs \<Rightarrow>
          (case js_length_gt0 eng docs of
             Inl e \<Rightarrow> st
           | Inr False \<Rightarrow> st
           | Inr True \<Rightarrow>
               (let latestDoc = js_index0 docs in
                case js_read eng latestDoc (ascii ''document_id'') of
                  Inl e \<Rightarrow> st
                | Inr docId \<Rightarrow>
                    (let st1 = st\<lparr>currentDocumentId := docId\<rparr> in
                     case js_read eng latestDoc (ascii ''filename'') of
                       Inl e \<Rightarrow> st1
                     | Inr fname \<Rightarrow>
                         (case js_template eng fname of
                            Inl e \<Rightarrow> st1
                          | Inr shown \<Rightarrow>
                              st1\<lparr>messages := messages st1 @
                                [\<lparr>msg_id = show_nat t_id @ ascii ''_system'',
                                  msg_text = JStr (system_message_prefix @ shown @ system_message_suffix),
                                  isUser = False, timestamp = t_stamp\<rparr>]\<rparr>)))))"

definition fetchLatestDocument ::
  "js_engine \<Rightarrow> network \<Rightarrow> nat \<Rightarrow> nat \<Rightarrow> chat_state \<times> request list \<Rightarrow> chat_state \<times> request list" where
  "fetchLatestDocument eng net t_id t_stamp w =
     (case w of (st, log) \<Rightarrow>
        (case axios net latest_document_request log of
           (Inl e, log') \<Rightarrow> (st, log')
         | (Inr resp, log') \<Rightarrow> (select_latest eng t_id t_stamp (data resp) st, log')))"

subsection \<open>Search in the conversation\<close>

text \<open>
  \<open>msg.text.includes(searchText)\<close>: the substring test on a string, the membership
  test of \<open>Array.prototype.includes\<close> on an array, and a TypeError on anything else
  (no other value of the backend's JSON has a callable \<open>includes\<close>).
\<close>

fun text_includes :: "js_engine \<Rightarrow> json \<Rightarrow> jsstring \<Rightarrow> js_error + bool" where
  "text_includes eng (JStr s) needle = Inr (js_includes s needle)"
| "text_includes eng (JArr xs) needle = Inr (JStr needle \<in> set xs)"
| "text_includes eng v needle = Inl (type_error (type_error_text eng v (ascii ''includes'')))"

text \<open>\<open>messages.filter(msg => msg.text.includes(searchText))\<close>; the first exception ends it.\<close>

fun filter_matches :: "js_engine \<Rightarrow> ChatMessage list \<Rightarrow> jsstring \<Rightarrow> js_error + ChatMessage list" where
  "filter_matches eng [] needle = Inr []"
| "filter_matches eng (m # ms) needle =
     (case text_includes eng (msg_text m) needle of
        Inl e \<Rightarrow> Inl e
      | Inr b \<Rightarrow>
          (case filter_matches eng ms needle of
             Inl e \<Rightarrow> Inl e
           | Inr r \<Rightarrow> Inr (if b then m # r else r)))"

text \<open>
  The effect that runs when \<open>searchText\<close> or \<open>messages\<close> has changed. An exception
  in an effect takes the component down: \<open>Inl\<close>.
\<close>

definition search_effect :: "js_engine \<Rightarrow> chat_state \<Rightarrow> js_error + chat_state" where
  "search_effect eng st =
     (if js_trim (searchText st) = [] then Inr (st\<lparr>foundIds := []\<rparr>)
      else
        (case filter_matches eng (messages st) (searchText st) of
           Inl e \<Rightarrow> Inl e
         | Inr found \<Rightarrow> Inr (st\<lparr>foundIds := map msg_id found, currentMatchIndex := 0\<rparr>)))"

definition handlePrevMatch :: "chat_state \<Rightarrow> chat_state" where
  "handlePrevMatch st =
     (if length (foundIds st) = 0 then st
      else st\<lparr>currentMatchIndex :=
        js_rem (currentMatchIndex st - 1 + int (length (foundIds st))) (int (length (foundIds st)))\<rparr>)"

definition handleNextMatch :: "chat_state \<Rightarrow> chat_state" where
  "handleNextMatch st =
     (if length (foundIds st) = 0 then st
      else st\<lparr>currentMatchIndex :=
        js_rem (currentMatchIndex st + 1) (int (length (foundIds st)))\<rparr>)"

definition closeSearch :: "chat_state \<Rightarrow> chat_state" where
  "closeSearch st = st\<lparr>isSearchMode := False, searchText := [], foundIds := []\<rparr>"

text \<open>
  What can happen to the search cells: the user edits the search field
  (\<open>onChangeText={setSearchText}\<close>), the list of messages changes, or one of the three
  buttons is pressed. A change of \<open>searchText\<close> or \<open>messages\<close> is followed by the
  effect.
\<close>

datatype search_event =
    SearchTextChanged jsstring
  | MessagesChanged "ChatMessage list"
  | PrevPressed
  | NextPressed
  | ClosePressed

fun search_step :: "js_engine \<Rightarrow> search_event \<Rightarrow> chat_state \<Rightarrow> js_error + chat_state" where
  "search_step eng (SearchTextChanged t) st = search_effect eng (st\<lparr>searchText := t\<rparr>)"
| "search_step eng (MessagesChanged ms) st = search_effect eng (st\<lparr>messages := ms\<rparr>)"
| "search_step eng PrevPressed st = Inr (handlePrevMatch st)"
| "search_step eng NextPressed st = Inr (handleNextMatch st)"
| "search_step eng ClosePressed st = search_effect eng (closeSearch st)"

fun search_run :: "js_engine \<Rightarrow> search_event list \<Rightarrow> chat_state \<Rightarrow> js_error + chat_state" where
  "search_run eng [] st = Inr st"
| "search_run eng (ev # evs) st =
     (case search_step eng ev st of
        Inl e \<Rightarrow> Inl e
      | Inr st' \<Rightarrow> search_run eng evs st')"

subsection \<open>sendMessageToBackend\<close>

definition chat_request :: "json \<Rightarrow> jsstring \<Rightarrow> request" where
  "chat_request documentId userMessage =
     \<lparr>http_method = POST, url = BACKEND_URL @ ascii ''/api/v1/chat'',
      body = JsonBody (JObj [(ascii ''question'', JStr userMessage),
                             (ascii ''document_id'', documentId),
                             (ascii ''max_tokens'', JNum 1000)]),
      timeout = Some 30000,
      headers = [(ascii ''Content-Type'', ascii ''application/json'')]\<rparr>"

text \<open>
  \<open>return response.data.answer || response.data.response || '...'\<close>: the second
  property is read only when the first is falsy.
\<close>

definition chat_answer :: "js_engine \<Rightarrow> json \<Rightarrow> js_error + json" where
  "chat_answer eng d =
     (case js_read eng d (ascii ''answer'') of
        Inl e \<Rightarrow> Inl e
      | Inr a \<Rightarrow>
          if js_truthy a then Inr a
          else
            (case js_read eng d (ascii ''response'') of
               Inl e \<Rightarrow> Inl e
             | Inr r \<Rightarrow> Inr (js_or r (JStr msg_no_answer))))"

text \<open>The \<open>catch\<close> block: it returns a message for every error.\<close>

definition chat_error_message :: "js_error \<Rightarrow> jsstring" where
  "chat_error_message error =
     (if code error = Some (ascii ''ECONNABORTED'') then msg_timeout
      else if (case response error of None \<Rightarrow> False | Some r \<Rightarrow> status r = 404)
        then msg_not_found
      else if (case response error of None \<Rightarrow> False | Some r \<Rightarrow> status r = 500)
        then msg_server_error
      else msg_connection_error_prefix @ message error)"

text \<open>
  \<open>try { body } catch (error) { handler }\<close>: the handler gets whatever the body
  throws, and what the handler throws leaves the function.
\<close>

definition try_catch :: "(js_error + 'a) \<Rightarrow> (js_error \<Rightarrow> js_error + 'a) \<Rightarrow> js_error + 'a" where
  "try_catch block handler = (case block of Inl e \<Rightarrow> handler e | Inr v \<Rightarrow> Inr v)"

text \<open>
  The result is what the promise settles with: \<open>Inl\<close> would be a rejection that
  reaches the caller.
\<close>

definition sendMessageToBackend ::
  "js_engine \<Rightarrow> network \<Rightarrow> json \<Rightarrow> jsstring \<Rightarrow> request list \<Rightarrow> (js_error + json) \<times> request list" where
  "sendMessageToBackend eng net documentId userMessage log =
     (case axios net (chat_request documentId userMessage) log of
        (outcome, log') \<Rightarrow>
          (try_catch
             (case outcome of Inl e \<Rightarrow> Inl e | Inr resp \<Rightarrow> chat_answer eng (data resp))
             (\<lambda>error. Inr (JStr (chat_error_message error))),
           log'))"

subsection \<open>sendMessage\<close>

text \<open>
  Up to the \<open>await\<close>: nothing at all for a blank text (\<open>None\<close>: the function has
  returned), else the user's message is appended, the input field is cleared and the
  typing indicator is set.
\<close>

definition sendMessage_begin :: "nat \<Rightarrow> nat \<Rightarrow> jsstring \<Rightarrow> chat_state \<Rightarrow> chat_state option" where
  "sendMessage_begin t_id t_stamp textToSend st =
     (if js_trim textToSend = [] then None
      else Some (st\<lparr>messages := messages st @
                   [\<lparr>msg_id = show_nat t_id, msg_text = JStr (js_trim textToSend),
                     isUser = True, timestamp = t_stamp\<rparr>],
                 message_input := [], isTyping := True\<rparr>))"

text \<open>
  After the \<open>await\<close>: the reply (or, had the promise been rejected, the apology) is
  appended to the messages of that moment, and \<open>finally\<close> clears the typing indicator.
\<close>

definition sendMessage_complete :: "nat \<Rightarrow> nat \<Rightarrow> js_error + json \<Rightarrow> chat_state \<Rightarrow> chat_state" where
  "sendMessage_complete t_id t_stamp result st =
     (let reply =
        (case result of
           Inr aiResponse \<Rightarrow>
             \<lparr>msg_id = show_nat (t_id + 1), msg_text = aiResponse, isUser = False,
              timestamp = t_stamp\<rparr>
         | Inl e \<Rightarrow>
             \<lparr>msg_id = show_nat (t_id + 1), msg_text = JStr msg_unexpected_error,
              isUser = False, timestamp = t_stamp\<rparr>)
      in st\<lparr>messages := messages st @ [reply], isTyping := False\<rparr>)"

text \<open>
  The whole call when nothing else touches the state while the request is in flight. The
  document id is the one of the render in which the call started.
\<close>

definition sendMessage ::
  "js_engine \<Rightarrow> network \<Rightarrow> nat \<times> nat \<Rightarrow> nat \<times> nat \<Rightarrow> jsstring \<Rightarrow>
   chat_state \<times> request list \<Rightarrow> chat_state \<times> request list" where
  "sendMessage eng net t_user t_reply textToSend w =
     (case w of (st, log) \<Rightarrow>
        (case sendMessage_begin (fst t_user) (snd t_user) textToSend st of
           None \<Rightarrow> w
         | Some st1 \<Rightarrow>
             (case sendMessageToBackend eng net (currentDocumentId st) (js_trim textToSend) log of
                (result, log') \<Rightarrow>
                  (sendMessage_complete (fst t_reply) (snd t_reply) result st1, log'))))"

section \<open>DocumentListScreen.tsx\<close>

text \<open>
  The state cells; \<open>dl_documents\<close> is the cell \<open>documents\<close>, which holds whatever
  fetchDocuments has stored.
\<close>

record doclist_state =
  dl_searchText :: jsstring
  selectedFilter :: jsstring
  dl_documents :: json
  dl_loading :: bool
  dl_refreshing :: bool

text \<open>The listing request of DocumentListScreen and HomeScreen: a timeout of ten seconds.\<close>

definition documents_request :: request where
  "documents_request =
     \<lparr>http_method = GET, url = BACKEND_URL @ ascii ''/api/v1/documents/'', body = NoBody,
      timeout = Some 10000, headers = []\<rparr>"

text \<open>\<open>const docs = response.data.documents || response.data || [];\<close>\<close>

definition DocumentList_docs :: "js_engine \<Rightarrow> json \<Rightarrow> js_error + json" where
  "DocumentList_docs eng d =
     (case js_read eng d (ascii ''documents'') of
        Inl e \<Rightarrow> Inl e
      | Inr x \<Rightarrow> Inr (js_or (js_or x d) (JArr [])))"

text \<open>
  \<open>try\<close>: store the list; \<open>catch\<close>: log only (the line that would clear the list
  is commented out in the source); \<open>finally\<close>: clear both loading flags.
\<close>

definition DocumentList_fetchDocuments ::
  "js_engine \<Rightarrow> network \<Rightarrow> doclist_state \<times> request list \<Rightarrow> doclist_state \<times> request list" where
  "DocumentList_fetchDocuments eng net w =
     (case w of (st, log) \<Rightarrow>
        (case axios net documents_request log of
           (outcome, log') \<Rightarrow>
             (let st1 =
                (case outcome of
                   Inl e \<Rightarrow> st
                 | Inr resp \<Rightarrow>
                     (case DocumentList_docs eng (data resp) of
                        Inl e \<Rightarrow> st
                      | Inr docs \<Rightarrow> st\<lparr>dl_documents := docs\<rparr>))
              in (st1\<lparr>dl_loading := False, dl_refreshing := False\<rparr>, log'))))"

subsection \<open>analyzeDocument\<close>

definition analyze_request :: "json \<Rightarrow> request" where
  "analyze_request documentId =
     \<lparr>http_method = POST, url = BACKEND_URL @ ascii ''/api/v1/analyze'',
      body = JsonBody (JObj [(ascii ''document_id'', documentId)]),
      timeout = Some 30000, headers = []\<rparr>"

text \<open>
  The \<open>onPress\<close> handler of the confirming button: the request, then one alert (title
  and message), either with the summary or, from the \<open>catch\<close>, with the error.
\<close>

definition analyze_alert :: "js_engine \<Rightarrow> js_error + http_response \<Rightarrow> jsstring \<times> jsstring" where
  "analyze_alert eng outcome =
     (let failed = (\<lambda>error. (alert_analysis_failed_title, alert_analysis_failed_prefix @ message error))
      in case outcome of
           Inl e \<Rightarrow> failed e
         | Inr resp \<Rightarrow>
             (case js_read eng (data resp) (ascii ''summary'') of
                Inl e \<Rightarrow> failed e
              | Inr summary \<Rightarrow>
                  (case js_template eng (js_or summary (JStr alert_analysis_done_default)) of
                     Inl e \<Rightarrow> failed e
                   | Inr shown \<Rightarrow> (alert_analysis_done_title, alert_analysis_done_prefix @ shown))))"

definition analyzeDocument_confirmed ::
  "js_engine \<Rightarrow> network \<Rightarrow> json \<Rightarrow> request list \<Rightarrow> (jsstring \<times> jsstring) \<times> request list" where
  "analyzeDocument_confirmed eng net documentId log =
     (case axios net (analyze_request documentId) log of
        (outcome, log') \<Rightarrow> (analyze_alert eng outcome, log'))"

section \<open>HomeScreen.tsx\<close>

datatype noti_type = Complete | Analyzing | Info

text \<open>
  \<open>interface NotificationItem\<close>; \<open>date\<close> is what formatDate returned, a string or
  the value it was given.
\<close>

record NotificationItem =
  noti_id :: jsstring
  noti_type :: noti_type
  title :: jsstring
  noti_message :: jsstring
  date :: json
  read :: bool

record home_state =
  home_documents :: json
  home_loading :: bool
  home_refreshing :: bool
  notifications :: "NotificationItem list"
  isNotiModalVisible :: bool
  showMainNotification :: bool

definition home_initial :: home_state where
  "home_initial =
     \<lparr>home_documents = JArr [], home_loading = True, home_refreshing = False,
      notifications = [\<lparr>noti_id = ascii ''welcome'', noti_type = Info, title = welcome_title,
                        noti_message = welcome_message, date = JStr welcome_date, read = False\<rparr>],
      isNotiModalVisible = False, showMainNotification = True\<rparr>"

text \<open>\<open>const docs = response.data.documents || [];\<close>\<close>

definition Home_docs :: "js_engine \<Rightarrow> json \<Rightarrow> js_error + json" where
  "Home_docs eng d =
     (case js_read eng d (ascii ''documents'') of
        Inl e \<Rightarrow> Inl e
      | Inr x \<Rightarrow> Inr (js_or x (JArr [])))"

text \<open>
  The callback of \<open>docs.filter\<close>:
  \<open>doc.status === 'completed' || doc.status === (the legacy value)\<close>.
\<close>

definition is_completed :: "js_engine \<Rightarrow> json \<Rightarrow> js_error + bool" where
  "is_completed eng doc =
     (case js_read eng doc (ascii ''status'') of
        Inl e \<Rightarrow> Inl e
      | Inr s \<Rightarrow> Inr (s = JStr (ascii ''completed'') \<or> s = JStr legacy_analysis_done))"

fun filter_completed :: "js_engine \<Rightarrow> json list \<Rightarrow> js_error + json list" where
  "filter_completed eng [] = Inr []"
| "filter_completed eng (doc # ds) =
     (case is_completed eng doc of
        Inl e \<Rightarrow> Inl e
      | Inr b \<Rightarrow>
          (case filter_completed eng ds of
             Inl e \<Rightarrow> Inl e
           | Inr r \<Rightarrow> Inr (if b then doc # r else r)))"

text \<open>
  \<open>docs.filter(...)\<close> for any value: only an array has the method, on every other value
  the call throws a TypeError.
\<close>

fun completed_of :: "js_engine \<Rightarrow> json \<Rightarrow> js_error + json list" where
  "completed_of eng (JArr xs) = filter_completed eng xs"
| "completed_of eng v = Inl (type_error (type_error_text eng v (ascii ''filter'')))"

text \<open>
  The callback of \<open>map\<close>, one notification for a completed document. formatDate reads
  the clock and parses a date, which this theory does not compute: it is the parameter
  \<open>fmt\<close> (it catches its own exceptions).
\<close>

definition complete_notification ::
  "js_engine \<Rightarrow> (json \<Rightarrow> json) \<Rightarrow> json \<Rightarrow> js_error + NotificationItem" where
  "complete_notification eng fmt doc =
     (case js_read eng doc (ascii ''document_id'') of
        Inl e \<Rightarrow> Inl e
      | Inr docId \<Rightarrow>
          (case js_template eng docId of
             Inl e \<Rightarrow> Inl e
           | Inr shown_id \<Rightarrow>
               (case js_read eng doc (ascii ''filename'') of
                  Inl e \<Rightarrow> Inl e
                | Inr fname \<Rightarrow>
                    (case js_template eng fname of
                       Inl e \<Rightarrow> Inl e
                     | Inr shown_name \<Rightarrow>
                         (case js_read eng doc (ascii ''created_at'') of
                            Inl e \<Rightarrow> Inl e
                          | Inr created \<Rightarrow>
                              Inr \<lparr>noti_id = ascii ''complete_'' @ shown_id, noti_type = Complete,
                                   title = noti_complete_title,
                                   noti_message = shown_name @ noti_complete_suffix,
                                   date = fmt created, read = False\<rparr>)))))"

fun map_notifications ::
  "js_engine \<Rightarrow> (json \<Rightarrow> json) \<Rightarrow> json list \<Rightarrow> js_error + NotificationItem list" where
  "map_notifications eng fmt [] = Inr []"
| "map_notifications eng fmt (doc # ds) =
     (case complete_notification eng fmt doc of
        Inl e \<Rightarrow> Inl e
      | Inr n \<Rightarrow>
          (case map_notifications eng fmt ds of
             Inl e \<Rightarrow> Inl e
           | Inr ns \<Rightarrow> Inr (n # ns)))"

text \<open>
  The body of the \<open>try\<close> block after the response has arrived; an exception leaves
  the state as it is at that point.
\<close>

definition store_documents ::
  "js_engine \<Rightarrow> (json \<Rightarrow> json) \<Rightarrow> json \<Rightarrow> home_state \<Rightarrow> home_state" where
  "store_documents eng fmt d st =
     (case Home_docs eng d of
        Inl e \<Rightarrow> st
      | Inr docs \<Rightarrow>
          (let st1 = st\<lparr>home_documents := docs\<rparr> in
           case js_length_gt0 eng docs of
             Inl e \<Rightarrow> st1
           | Inr False \<Rightarrow> st1
           | Inr True \<Rightarrow>
               (case completed_of eng docs of
                  Inl e \<Rightarrow> st1
                | Inr completedDocs \<Rightarrow>
                    if length completedDocs > 0 then
                      (case map_notifications eng fmt (take 3 completedDocs) of
                         Inl e \<Rightarrow> st1
                       | Inr newNotifications \<Rightarrow>
                           st1\<lparr>notifications := newNotifications @
                                 filter (\<lambda>n. noti_type n = Info) (notifications st1)\<rparr>)
                    else st1)))"

definition Home_fetchDocuments ::
  "js_engine \<Rightarrow> (json \<Rightarrow> json) \<Rightarrow> network \<Rightarrow> home_state \<times> request list \<Rightarrow> home_state \<times> request list" where
  "Home_fetchDocuments eng fmt net w =
     (case w of (st, log) \<Rightarrow>
        (case axios net documents_request log of
           (outcome, log') \<Rightarrow>
             (let st1 =
                (case outcome of
                   Inl e \<Rightarrow> st
                 | Inr resp \<Rightarrow> store_documents eng fmt (data resp) st)
              in (st1\<lparr>home_loading := False, home_refreshing := False\<rparr>, log'))))"

text \<open>
  The two values every render derives from \<open>documents\<close>:
  \<open>recentDocs = documents.slice(0, 3)\<close> and
  \<open>latestDoc = documents.length > 0 ? documents[0] : null\<close>. Only an array and a
  string have \<open>slice\<close>; on any other value the render throws before \<open>latestDoc\<close>.
\<close>

fun Home_recent_latest :: "js_engine \<Rightarrow> json \<Rightarrow> js_error + json \<times> json" where
  "Home_recent_latest eng (JArr xs) =
     Inr (JArr (take 3 xs), (if length xs > 0 then xs ! 0 else JNull))"
| "Home_recent_latest eng (JStr s) =
     Inr (JStr (take 3 s), (if length s > 0 then JStr [s ! 0] else JNull))"
| "Home_recent_latest eng v = Inl (type_error (type_error_text eng v (ascii ''slice'')))"

section \<open>DocumentUploadScreen.tsx\<close>

record upload_state =
  uploadStatus :: jsstring
  isUploading :: bool

definition upload_initial :: upload_state where
  "upload_initial = \<lparr>uploadStatus = status_select_file, isUploading = False\<rparr>"

text \<open>
  What the document picker resolves with: a cancellation, or the first asset with its
  name, its URI and, when known, its MIME type.
\<close>

record asset =
  asset_name :: jsstring
  asset_uri :: jsstring
  mimeType :: "jsstring option"

datatype picker_result = Canceled | Picked asset

definition upload_request :: "asset \<Rightarrow> request" where
  "upload_request a =
     \<lparr>http_method = POST, url = BACKEND_URL @ ascii ''/api/v1/documents/upload'',
      body = FormData [(ascii ''file'',
               \<lparr>file_uri = asset_uri a,
                file_type = (case mimeType a of
                               None \<Rightarrow> ascii ''application/pdf''
                             | Some t \<Rightarrow> if t = [] then ascii ''application/pdf'' else t),
                file_name = asset_name a\<rparr>)],
      timeout = Some 30000,
      headers = [(ascii ''Content-Type'', ascii ''multipart/form-data'')]\<rparr>"

text \<open>
  The state, the log of requests and the alerts shown. The picker's promise can be
  rejected as well as the request; both end in the \<open>catch\<close>. \<open>finally\<close> clears
  \<open>isUploading\<close> on every path, the early return included.
\<close>

definition upload_failed ::
  "js_error \<Rightarrow> upload_state \<Rightarrow> (jsstring \<times> jsstring) list \<Rightarrow> upload_state \<times> (jsstring \<times> jsstring) list" where
  "upload_failed error st alerts =
     (st\<lparr>uploadStatus := status_failed_prefix @ message error\<rparr>,
      alerts @ [(alert_error_title, alert_error_prefix @ message error)])"

definition handleUpload ::
  "network \<Rightarrow> js_error + picker_result \<Rightarrow>
   upload_state \<times> request list \<times> (jsstring \<times> jsstring) list \<Rightarrow>
   upload_state \<times> request list \<times> (jsstring \<times> jsstring) list" where
  "handleUpload net picked w =
     (case w of (st, log, alerts) \<Rightarrow>
        (let st0 = st\<lparr>uploadStatus := status_choosing\<rparr>;
             finish = (\<lambda>(s, l, a). (s\<lparr>isUploading := False\<rparr>, l, a))
         in case picked of
              Inl e \<Rightarrow>
                (case upload_failed e st0 alerts of (s, a) \<Rightarrow> finish (s, log, a))
            | Inr Canceled \<Rightarrow> finish (st0\<lparr>uploadStatus := status_canceled\<rparr>, log, alerts)
            | Inr (Picked a) \<Rightarrow>
                (let st1 = st0\<lparr>isUploading := True,
                                uploadStatus := status_uploading_prefix @ asset_name a\<rparr>
                 in case axios net (upload_request a) log of
                      (Inl e, log') \<Rightarrow>
                        (case upload_failed e st1 alerts of (s, al) \<Rightarrow> finish (s, log', al))
                    | (Inr resp, log') \<Rightarrow>
                        finish (st1\<lparr>uploadStatus := status_success_prefix @ asset_name a\<rparr>,
                                log', alerts @ [(alert_success_title, alert_success_message)]))))"

section \<open>Predicates of the statements and inputs for the examples\<close>

fun is_nonempty_string :: "json \<Rightarrow> bool" where
  "is_nonempty_string (JStr s) = (s \<noteq> [])"
| "is_nonempty_string v = False"

text \<open>A property of the body that is a string whenever it is truthy (or cannot be read).\<close>

definition string_if_truthy :: "json \<Rightarrow> jsstring \<Rightarrow> bool" where
  "string_if_truthy d k =
     (case js_get d k of
        None \<Rightarrow> True
      | Some x \<Rightarrow> (if js_truthy x then is_nonempty_string x else True))"

text \<open>While there are matches, the index of the current match points at one of them.\<close>

definition index_in_range :: "chat_state \<Rightarrow> bool" where
  "index_in_range st \<longleftrightarrow>
     (foundIds st = [] \<or>
      (0 \<le> currentMatchIndex st \<and> currentMatchIndex st < int (length (foundIds st))))"

text \<open>An engine to evaluate the examples with, and three errors as axios reports them.\<close>

definition example_engine :: js_engine where
  "example_engine =
     \<lparr>type_error_text = (\<lambda>v k. ascii ''Cannot read property''),
      to_string = (\<lambda>v. Inr (ascii ''[object Object]'')),
      greater_than_zero = (\<lambda>v. Inr False)\<rparr>"

definition timeout_error :: js_error where
  "timeout_error =
     \<lparr>code = Some (ascii ''ECONNABORTED''), response = None,
      message = ascii ''timeout of 30000ms exceeded''\<rparr>"

definition status_error :: "int \<Rightarrow> js_error" where
  "status_error n =
     \<lparr>code = Some (ascii ''ERR_BAD_REQUEST''),
      response = Some \<lparr>status = n, data = JNull\<rparr>,
      message = ascii ''Request failed''\<rparr>"

definition network_error :: js_error where
  "network_error =
     \<lparr>code = Some (ascii ''ERR_NETWORK''), response = None, message = ascii ''Network Error''\<rparr>"

definition ok :: "json \<Rightarrow> http_response" where
  "ok d = \<lparr>status = 200, data = d\<rparr>"

definition example_document :: json where
  "example_document =
     JObj [(ascii ''document_id'', JStr (ascii ''d1'')),
           (ascii ''filename'', JStr (ascii ''report.pdf'')),
           (ascii ''created_at'', JStr (ascii ''2025-01-01T00:00:00Z'')),
           (ascii ''status'', JStr (ascii ''completed''))]"

section \<open>Facts about the string literals\<close>

lemma ascii_simps [simp]:
  "ascii [] = []"
  "ascii (c # cs) = of_nat (of_char c) # ascii cs"
  by (simp_all add: ascii_def)

lemmas status_literal_defs =
  label_analysis_done_def label_analyzing_def label_uploaded_def
  legacy_analysis_done_def legacy_analyzing_def legacy_uploaded_def

section \<open>Status display\<close>

text \<open>
  Claim C8. DocumentListScreen's getStatusText is defined on every status value and returns
  one of three pairwise different labels, each of which it does return; a value that is
  none of the six strings it lists gets the label of the uploaded stage; and the colour of
  the badge, getStatusColor(getStatusText(status)), is never the fallback colour #666.
\<close>

theorem getStatusText_three_labels:
  "DocumentList_getStatusText s \<in> {label_analysis_done, label_analyzing, label_uploaded}
   \<and> label_analysis_done \<noteq> label_analyzing
   \<and> label_analysis_done \<noteq> label_uploaded
   \<and> label_analyzing \<noteq> label_uploaded
   \<and> DocumentList_getStatusText (JStr (ascii ''completed'')) = label_analysis_done
   \<and> DocumentList_getStatusText (JStr (ascii ''analyzing'')) = label_analyzing
   \<and> DocumentList_getStatusText (JStr (ascii ''uploaded'')) = label_uploaded
   \<and> (s \<notin> JStr ` {ascii ''completed'', ascii ''analyzed'', legacy_analysis_done,
          ascii ''analyzing'', ascii ''reanalyzing'', ascii ''uploaded''}
        \<longrightarrow> DocumentList_getStatusText s = label_uploaded)
   \<and> statusBadge_color s \<noteq> ascii ''#666''
   \<and> DocumentList_getStatusColor (JStr (DocumentList_getStatusText s)) \<noteq> ascii ''#666''"
  by (simp add: DocumentList_getStatusText_def DocumentList_getStatusColor_def
      statusBadge_color_def status_literal_defs)

theorem getStatusText_three_labels_witness:
  "JStr (ascii ''failed'') \<notin> JStr ` {ascii ''completed'', ascii ''analyzed'', legacy_analysis_done,
          ascii ''analyzing'', ascii ''reanalyzing'', ascii ''uploaded''}
   \<and> DocumentList_getStatusText (JStr (ascii ''failed'')) = label_uploaded
   \<and> statusBadge_color (JStr (ascii ''failed'')) = ascii ''#2196F3''"
  using getStatusText_three_labels [of "JStr (ascii ''failed'')"]
  by (simp add: DocumentList_getStatusText_def DocumentList_getStatusColor_def
      statusBadge_color_def status_literal_defs)

text \<open>
  Claim C2 (the code departs from it). DocumentListScreen's getStatusText does not list the
  legacy value for the analyzing stage: it falls into the default branch and gets the label
  of the uploaded stage, while getStatusColor and getStatusIcon of the same screen treat it
  like \<open>analyzing\<close>. HomeScreen's getStatusText lists neither \<open>analyzed\<close> nor
  \<open>reanalyzing\<close> and returns them as they came, not the labels it gives
  \<open>completed\<close> and \<open>analyzing\<close>, while its getStatusColor does list
  \<open>analyzed\<close>.
\<close>

theorem legacy_analyzing_shown_as_uploaded:
  "DocumentList_getStatusText (JStr legacy_analyzing) = label_uploaded
   \<and> DocumentList_getStatusText (JStr (ascii ''analyzing'')) = label_analyzing
   \<and> DocumentList_getStatusText (JStr (ascii ''uploaded'')) = label_uploaded
   \<and> label_uploaded \<noteq> label_analyzing
   \<and> DocumentList_getStatusColor (JStr legacy_analyzing)
       = DocumentList_getStatusColor (JStr (ascii ''analyzing''))
   \<and> DocumentList_getStatusIcon (JStr legacy_analyzing)
       = DocumentList_getStatusIcon (JStr (ascii ''analyzing''))
   \<and> Home_getStatusText (JStr (ascii ''completed'')) = JStr legacy_analysis_done
   \<and> Home_getStatusText (JStr (ascii ''analyzed'')) = JStr (ascii ''analyzed'')
   \<and> Home_getStatusColor (JStr (ascii ''analyzed''))
       = Home_getStatusColor (JStr (ascii ''completed''))
   \<and> Home_getStatusText (JStr (ascii ''analyzing'')) = JStr legacy_analyzing
   \<and> Home_getStatusText (JStr (ascii ''reanalyzing'')) = JStr (ascii ''reanalyzing'')"
  by (simp add: DocumentList_getStatusText_def DocumentList_getStatusColor_def
      DocumentList_getStatusIcon_def Home_getStatusText_def Home_getStatusColor_def
      status_literal_defs)

section \<open>sendMessageToBackend\<close>

lemma chat_messages_distinct:
  "msg_timeout \<noteq> msg_not_found" "msg_timeout \<noteq> msg_server_error"
  "msg_not_found \<noteq> msg_server_error"
  "msg_connection_error_prefix @ m \<noteq> msg_timeout"
  "msg_connection_error_prefix @ m \<noteq> msg_not_found"
  "msg_connection_error_prefix @ m \<noteq> msg_server_error"
  by (simp_all add: msg_timeout_def msg_not_found_def msg_server_error_def
      msg_connection_error_prefix_def)

lemma chat_error_message_nonempty: "chat_error_message error \<noteq> []"
  by (simp add: chat_error_message_def msg_timeout_def msg_not_found_def
      msg_server_error_def msg_connection_error_prefix_def)

lemma sendMessageToBackend_rejected:
  "net (chat_request documentId userMessage) = Inl error \<Longrightarrow>
   sendMessageToBackend eng net documentId userMessage log =
     (Inr (JStr (chat_error_message error)), log @ [chat_request documentId userMessage])"
  by (simp add: sendMessageToBackend_def axios_def try_catch_def)

text \<open>
  Claim C1. When the chat request fails with the error object \<open>error\<close>,
  sendMessageToBackend returns a message that depends on the error only: the timeout
  message when the code is ECONNABORTED; else the upload-and-analyze-first message when the
  response has status 404; else the transient-server-problem message when it has status
  500; else the connection-error prefix followed by the error's own message. The three
  fixed messages are pairwise different, and no connection-error message equals one of
  them.
\<close>

theorem chat_failure_messages:
  "net (chat_request documentId userMessage) = Inl error \<Longrightarrow>
   fst (sendMessageToBackend eng net documentId userMessage log)
     = Inr (JStr (chat_error_message error))
   \<and> (code error = Some (ascii ''ECONNABORTED'') \<longrightarrow> chat_error_message error = msg_timeout)
   \<and> (code error \<noteq> Some (ascii ''ECONNABORTED'') \<and> response error = Some r \<and> status r = 404
        \<longrightarrow> chat_error_message error = msg_not_found)
   \<and> (code error \<noteq> Some (ascii ''ECONNABORTED'') \<and> response error = Some r \<and> status r = 500
        \<longrightarrow> chat_error_message error = msg_server_error)
   \<and> (code error \<noteq> Some (ascii ''ECONNABORTED'')
        \<and> (response error = None \<or> (response error = Some r \<and> status r \<noteq> 404 \<and> status r \<noteq> 500))
        \<longrightarrow> chat_error_message error = msg_connection_error_prefix @ message error)
   \<and> msg_timeout \<noteq> msg_not_found \<and> msg_timeout \<noteq> msg_server_error
   \<and> msg_not_found \<noteq> msg_server_error
   \<and> msg_connection_error_prefix @ m \<notin> {msg_timeout, msg_not_found, msg_server_error}"
proof -
  assume rejected: "net (chat_request documentId userMessage) = Inl error"
  have returned: "fst (sendMessageToBackend eng net documentId userMessage log)
      = Inr (JStr (chat_error_message error))"
    using rejected by (simp add: sendMessageToBackend_rejected)
  have cases: "(code error = Some (ascii ''ECONNABORTED'') \<longrightarrow> chat_error_message error = msg_timeout)
   \<and> (code error \<noteq> Some (ascii ''ECONNABORTED'') \<and> response error = Some r \<and> status r = 404
        \<longrightarrow> chat_error_message error = msg_not_found)
   \<and> (code error \<noteq> Some (ascii ''ECONNABORTED'') \<and> response error = Some r \<and> status r = 500
        \<longrightarrow> chat_error_message error = msg_server_error)
   \<and> (code error \<noteq> Some (ascii ''ECONNABORTED'')
        \<and> (response error = None \<or> (response error = Some r \<and> status r \<noteq> 404 \<and> status r \<noteq> 500))
        \<longrightarrow> chat_error_message error = msg_connection_error_prefix @ message error)"
    by (auto simp: chat_error_message_def)
  from returned cases show ?thesis
    by (simp add: chat_messages_distinct)
qed

theorem chat_failure_messages_witness:
  "fst (sendMessageToBackend example_engine (\<lambda>r. Inl timeout_error) JNull (ascii ''hi'') [])
     = Inr (JStr msg_timeout)
   \<and> fst (sendMessageToBackend example_engine (\<lambda>r. Inl (status_error 404)) JNull (ascii ''hi'') [])
     = Inr (JStr msg_not_found)
   \<and> fst (sendMessageToBackend example_engine (\<lambda>r. Inl (status_error 500)) JNull (ascii ''hi'') [])
     = Inr (JStr msg_server_error)
   \<and> fst (sendMessageToBackend example_engine (\<lambda>r. Inl network_error) JNull (ascii ''hi'') [])
     = Inr (JStr (msg_connection_error_prefix @ ascii ''Network Error''))"
  using
    chat_failure_messages [of "\<lambda>r. Inl timeout_error" JNull "ascii ''hi''" timeout_error
      example_engine "[]" "\<lparr>status = 0, data = JNull\<rparr>" "[]"]
    chat_failure_messages [of "\<lambda>r. Inl (status_error 404)" JNull "ascii ''hi''" "status_error 404"
      example_engine "[]" "\<lparr>status = 404, data = JNull\<rparr>" "[]"]
    chat_failure_messages [of "\<lambda>r. Inl (status_error 500)" JNull "ascii ''hi''" "status_error 500"
      example_engine "[]" "\<lparr>status = 500, data = JNull\<rparr>" "[]"]
    chat_failure_messages [of "\<lambda>r. Inl network_error" JNull "ascii ''hi''" network_error
      example_engine "[]" "\<lparr>status = 0, data = JNull\<rparr>" "[]"]
  by (simp add: timeout_error_def status_error_def network_error_def)

lemma msg_no_answer_nonempty: "msg_no_answer \<noteq> []"
  by (simp add: msg_no_answer_def)

lemma is_nonempty_string_truthy: "is_nonempty_string v \<Longrightarrow> js_truthy v"
  by (cases v) simp_all

lemma sendMessageToBackend_caught:
  "net (chat_request documentId userMessage) = Inr resp \<Longrightarrow>
   js_get (data resp) (ascii ''answer'') = None \<Longrightarrow>
   sendMessageToBackend eng net documentId userMessage log =
     (Inr (JStr (chat_error_message
        (type_error (type_error_text eng (data resp) (ascii ''answer''))))),
      log @ [chat_request documentId userMessage])"
  by (simp add: sendMessageToBackend_def axios_def try_catch_def chat_answer_def js_read_def)

lemma chat_error_message_type_error:
  "chat_error_message (type_error m) = msg_connection_error_prefix @ m"
  by (simp add: chat_error_message_def type_error_def)

lemma connection_error_nonempty: "msg_connection_error_prefix \<noteq> []"
  by (simp add: msg_connection_error_prefix_def)

lemma js_get_same_value:
  "js_get d k = Some a \<Longrightarrow> \<exists>r. js_get d k' = Some r"
  by (cases d) simp_all

lemma sendMessageToBackend_answered:
  "net (chat_request documentId userMessage) = Inr resp \<Longrightarrow>
   js_get (data resp) (ascii ''answer'') = Some a \<Longrightarrow>
   js_get (data resp) (ascii ''response'') = Some r \<Longrightarrow>
   sendMessageToBackend eng net documentId userMessage log =
     (Inr (if js_truthy a then a else if js_truthy r then r else JStr msg_no_answer),
      log @ [chat_request documentId userMessage])"
  by (simp add: sendMessageToBackend_def axios_def try_catch_def chat_answer_def js_read_def
      js_or_def)

text \<open>
  Claim C6, as amended. Whatever the outcome of the request, sendMessageToBackend sends
  exactly the chat request and settles with a value, never with an exception, and the value
  is truthy. For a response whose body is neither \<open>null\<close> nor \<open>undefined\<close> it is
  \<open>answer\<close> when that is truthy, otherwise \<open>response\<close> when that is truthy,
  otherwise the fixed, non-empty fallback string; for a body that is \<open>null\<close> or
  \<open>undefined\<close> it is the connection-error message of the TypeError. The value is a
  non-empty string whenever \<open>answer\<close> and \<open>response\<close> are strings where they are
  truthy; every rejected request ends in a non-empty string.
\<close>

theorem chat_reply_shape:
  "\<exists>v. sendMessageToBackend eng net documentId userMessage log
         = (Inr v, log @ [chat_request documentId userMessage])
     \<and> js_truthy v
     \<and> (\<forall>resp a. net (chat_request documentId userMessage) = Inr resp
            \<and> js_get (data resp) (ascii ''answer'') = Some a \<and> js_truthy a \<longrightarrow> v = a)
     \<and> (\<forall>resp a r. net (chat_request documentId userMessage) = Inr resp
            \<and> js_get (data resp) (ascii ''answer'') = Some a \<and> \<not> js_truthy a
            \<and> js_get (data resp) (ascii ''response'') = Some r \<and> js_truthy r \<longrightarrow> v = r)
     \<and> (\<forall>resp a r. net (chat_request documentId userMessage) = Inr resp
            \<and> js_get (data resp) (ascii ''answer'') = Some a \<and> \<not> js_truthy a
            \<and> js_get (data resp) (ascii ''response'') = Some r \<and> \<not> js_truthy r
            \<longrightarrow> v = JStr msg_no_answer)
     \<and> (\<forall>resp. net (chat_request documentId userMessage) = Inr resp
            \<and> js_get (data resp) (ascii ''answer'') = None
            \<longrightarrow> v = JStr (msg_connection_error_prefix
                  @ type_error_text eng (data resp) (ascii ''answer'')))
     \<and> msg_no_answer \<noteq> []
     \<and> ((\<forall>e. net (chat_request documentId userMessage) \<noteq> Inl e) \<or> is_nonempty_string v)
     \<and> ((\<forall>resp. net (chat_request documentId userMessage) = Inr resp
            \<longrightarrow> string_if_truthy (data resp) (ascii ''answer'')
              \<and> string_if_truthy (data resp) (ascii ''response''))
          \<longrightarrow> is_nonempty_string v)"
proof (cases "net (chat_request documentId userMessage)")
  case (Inl error)
  then show ?thesis
    by (simp add: sendMessageToBackend_rejected chat_error_message_nonempty
        msg_no_answer_nonempty)
next
  case (Inr resp)
  show ?thesis
  proof (cases "js_get (data resp) (ascii ''answer'')")
    case None
    with Inr show ?thesis
      by (simp add: sendMessageToBackend_caught chat_error_message_type_error
          connection_error_nonempty msg_no_answer_nonempty)
  next
    case (Some a)
    then obtain r where r: "js_get (data resp) (ascii ''response'') = Some r"
      using js_get_same_value by blast
    let ?v = "if js_truthy a then a else if js_truthy r then r else JStr msg_no_answer"
    have sent: "sendMessageToBackend eng net documentId userMessage log
        = (Inr ?v, log @ [chat_request documentId userMessage])"
      using Inr Some r by (rule sendMessageToBackend_answered)
    have truthy: "js_truthy ?v"
      by (simp add: msg_no_answer_nonempty)
    have strings: "string_if_truthy (data resp) (ascii ''answer'')
        \<and> string_if_truthy (data resp) (ascii ''response'') \<longrightarrow> is_nonempty_string ?v"
      using Some r by (simp add: string_if_truthy_def msg_no_answer_nonempty)
    from sent truthy strings Inr Some r show ?thesis
      by (simp add: msg_no_answer_nonempty)
  qed
qed

theorem chat_reply_shape_witness:
  "sendMessageToBackend example_engine
     (\<lambda>r. Inr (ok (JObj [(ascii ''response'', JStr (ascii ''yes''))]))) JNull (ascii ''hi'') []
     = (Inr (JStr (ascii ''yes'')), [chat_request JNull (ascii ''hi'')])
   \<and> sendMessageToBackend example_engine
     (\<lambda>r. Inr (ok (JObj [(ascii ''answer'', JStr [])]))) JNull (ascii ''hi'') []
     = (Inr (JStr msg_no_answer), [chat_request JNull (ascii ''hi'')])
   \<and> string_if_truthy (JObj [(ascii ''response'', JStr (ascii ''yes''))]) (ascii ''answer'')
   \<and> string_if_truthy (JObj [(ascii ''response'', JStr (ascii ''yes''))]) (ascii ''response'')
   \<and> is_nonempty_string (JStr (ascii ''yes''))"
  using
    chat_reply_shape [of example_engine
      "\<lambda>r. Inr (ok (JObj [(ascii ''response'', JStr (ascii ''yes''))]))" JNull "ascii ''hi''" "[]"]
    chat_reply_shape [of example_engine
      "\<lambda>r. Inr (ok (JObj [(ascii ''answer'', JStr [])]))" JNull "ascii ''hi''" "[]"]
  by (simp add: ok_def string_if_truthy_def)

text \<open>
  Claim C6 as it was written fails. A body whose \<open>answer\<close> is the boolean \<open>true\<close>
  makes the function return that boolean, which is not a string; and for a response whose
  body is \<open>null\<close> the function returns the connection-error message, not the
  fallback string.
\<close>

theorem chat_reply_not_a_string:
  "fst (sendMessageToBackend example_engine
     (\<lambda>r. Inr (ok (JObj [(ascii ''answer'', JBool True)]))) JNull (ascii ''hi'') [])
     = Inr (JBool True)
   \<and> \<not> is_nonempty_string (JBool True)
   \<and> fst (sendMessageToBackend example_engine (\<lambda>r. Inr (ok JNull)) JNull (ascii ''hi'') [])
     = Inr (JStr (msg_connection_error_prefix @ ascii ''Cannot read property''))
   \<and> msg_connection_error_prefix @ ascii ''Cannot read property'' \<noteq> msg_no_answer"
  by (simp add: sendMessageToBackend_def axios_def try_catch_def chat_answer_def js_read_def
      ok_def chat_error_message_def type_error_def example_engine_def
      msg_connection_error_prefix_def msg_no_answer_def)

section \<open>Timeouts of the requests\<close>

lemma sendMessage_log:
  "snd (sendMessage eng net t_user t_reply textToSend (st, log)) =
     (if js_trim textToSend = [] then log
      else log @ [chat_request (currentDocumentId st) (js_trim textToSend)])"
  by (simp add: sendMessage_def sendMessage_begin_def sendMessageToBackend_def axios_def)

text \<open>
  Claim C7. The chat request carries a timeout of 30000 milliseconds, and so do the upload
  request and the analyze request; these are the only requests that sendMessageToBackend,
  sendMessage, handleUpload and the confirmed analyzeDocument add to the log of requests
  sent.
\<close>

theorem requests_time_out_after_30_seconds:
  "timeout (chat_request documentId userMessage) = Some 30000
   \<and> timeout (upload_request a) = Some 30000
   \<and> timeout (analyze_request documentId) = Some 30000
   \<and> snd (sendMessageToBackend eng net documentId userMessage log)
       = log @ [chat_request documentId userMessage]
   \<and> (\<exists>sent. snd (sendMessage eng net t_user t_reply textToSend (st, log)) = log @ sent
         \<and> list_all (\<lambda>r. timeout r = Some 30000) sent)
   \<and> (\<exists>sent. fst (snd (handleUpload net picked (ust, log, alerts))) = log @ sent
         \<and> list_all (\<lambda>r. timeout r = Some 30000) sent)
   \<and> snd (analyzeDocument_confirmed eng net documentId log) = log @ [analyze_request documentId]"
proof -
  have chat: "timeout (chat_request documentId userMessage) = Some 30000" for documentId userMessage
    by (simp add: chat_request_def)
  have upload: "timeout (upload_request a) = Some 30000" for a
    by (simp add: upload_request_def)
  have analyze: "timeout (analyze_request documentId) = Some 30000"
    by (simp add: analyze_request_def)
  have backend: "snd (sendMessageToBackend eng net documentId userMessage log)
       = log @ [chat_request documentId userMessage]"
    by (simp add: sendMessageToBackend_def axios_def)
  have message: "\<exists>sent. snd (sendMessage eng net t_user t_reply textToSend (st, log)) = log @ sent
         \<and> list_all (\<lambda>r. timeout r = Some 30000) sent"
    by (simp add: sendMessage_log chat)
  have uploaded: "\<exists>sent. fst (snd (handleUpload net picked (ust, log, alerts))) = log @ sent
         \<and> list_all (\<lambda>r. timeout r = Some 30000) sent"
  proof (cases picked)
    case (Inl e)
    then show ?thesis
      by (simp add: handleUpload_def upload_failed_def)
  next
    case (Inr res)
    show ?thesis
    proof (cases res)
      case Canceled
      with Inr show ?thesis
        by (simp add: handleUpload_def)
    next
      case (Picked a)
      with Inr show ?thesis
        by (cases "net (upload_request a)")
          (simp_all add: handleUpload_def upload_failed_def axios_def upload)
    qed
  qed
  have confirmed: "snd (analyzeDocument_confirmed eng net documentId log)
       = log @ [analyze_request documentId]"
    by (simp add: analyzeDocument_confirmed_def axios_def)
  from chat upload analyze backend message uploaded confirmed show ?thesis
    by blast
qed

theorem requests_time_out_after_30_seconds_witness:
  "snd (sendMessage example_engine (\<lambda>r. Inl timeout_error) (1, 2) (3, 4) (ascii ''hi'')
          (chat_initial 0, []))
     = [chat_request JNull (ascii ''hi'')]
   \<and> timeout (chat_request JNull (ascii ''hi'')) = Some 30000"
  using requests_time_out_after_30_seconds [of JNull "ascii ''hi''" _ example_engine
      "\<lambda>r. Inl timeout_error" "[]" "(1, 2)" "(3, 4)" "ascii ''hi''" "chat_initial 0"]
  by (simp add: sendMessage_log chat_initial_def js_trim_def is_js_space_def)

section \<open>sendMessage\<close>

lemma js_trim_blank: "js_trim s = [] \<longleftrightarrow> list_all is_js_space s"
proof
  assume "js_trim s = []"
  then have "\<forall>c \<in> set (dropWhile is_js_space s). is_js_space c"
    by (simp add: js_trim_def dropWhile_eq_Nil_conv)
  then have "dropWhile is_js_space s = []"
    using hd_dropWhile [of is_js_space s] hd_in_set [of "dropWhile is_js_space s"] by blast
  then show "list_all is_js_space s"
    by (simp add: dropWhile_eq_Nil_conv list_all_iff)
next
  assume "list_all is_js_space s"
  then show "js_trim s = []"
    by (auto simp: js_trim_def list_all_iff dest: set_dropWhileD)
qed

text \<open>
  Claim C9. For a text that is empty or consists of whitespace only, sendMessage returns
  at once: the state (the messages, the typing flag and the input field with it) and the
  log of requests are what they were. For any other text, up to the backend call exactly
  one message is appended, a user message whose text is the trimmed input; then exactly
  one request is sent; and when it has completed exactly one more message is appended, which
  is not a user message.
\<close>

theorem sendMessage_effect:
  "(list_all is_js_space textToSend \<longrightarrow>
      sendMessage eng net t_user t_reply textToSend (st, log) = (st, log)
      \<and> sendMessage_begin (fst t_user) (snd t_user) textToSend st = None)
   \<and> (\<not> list_all is_js_space textToSend \<longrightarrow>
      (\<exists>st1 user reply.
         sendMessage_begin (fst t_user) (snd t_user) textToSend st = Some st1
         \<and> messages st1 = messages st @ [user]
         \<and> isUser user \<and> msg_text user = JStr (js_trim textToSend)
         \<and> messages (fst (sendMessage eng net t_user t_reply textToSend (st, log)))
             = messages st1 @ [reply]
         \<and> \<not> isUser reply
         \<and> snd (sendMessage eng net t_user t_reply textToSend (st, log))
             = log @ [chat_request (currentDocumentId st) (js_trim textToSend)]))"
proof (cases "list_all is_js_space textToSend")
  case True
  then have "js_trim textToSend = []"
    by (simp add: js_trim_blank)
  with True show ?thesis
    by (simp add: sendMessage_def sendMessage_begin_def)
next
  case False
  then have nonblank: "js_trim textToSend \<noteq> []"
    by (simp add: js_trim_blank)
  let ?user = "\<lparr>msg_id = show_nat (fst t_user), msg_text = JStr (js_trim textToSend),
                 isUser = True, timestamp = snd t_user\<rparr>"
  let ?st1 = "st\<lparr>messages := messages st @ [?user], message_input := [], isTyping := True\<rparr>"
  obtain result log' where backend:
    "sendMessageToBackend eng net (currentDocumentId st) (js_trim textToSend) log = (result, log')"
    by (cases "sendMessageToBackend eng net (currentDocumentId st) (js_trim textToSend) log")
  have begun: "sendMessage_begin (fst t_user) (snd t_user) textToSend st = Some ?st1"
    using nonblank by (simp add: sendMessage_begin_def)
  have whole: "sendMessage eng net t_user t_reply textToSend (st, log)
      = (sendMessage_complete (fst t_reply) (snd t_reply) result ?st1, log')"
    using begun backend by (simp add: sendMessage_def)
  define reply where "reply =
      (case result of
         Inr aiResponse \<Rightarrow>
           \<lparr>msg_id = show_nat (fst t_reply + 1), msg_text = aiResponse, isUser = False,
            timestamp = snd t_reply\<rparr>
       | Inl e \<Rightarrow>
           \<lparr>msg_id = show_nat (fst t_reply + 1), msg_text = JStr msg_unexpected_error,
            isUser = False, timestamp = snd t_reply\<rparr>)"
  have reply:
    "messages (sendMessage_complete (fst t_reply) (snd t_reply) result ?st1)
       = messages ?st1 @ [reply]" "\<not> isUser reply"
    by (simp_all add: sendMessage_complete_def reply_def split: sum.split)
  have sent: "snd (sendMessage eng net t_user t_reply textToSend (st, log))
      = log @ [chat_request (currentDocumentId st) (js_trim textToSend)]"
    using nonblank by (simp add: sendMessage_log)
  have "sendMessage_begin (fst t_user) (snd t_user) textToSend st = Some ?st1
      \<and> messages ?st1 = messages st @ [?user]
      \<and> isUser ?user \<and> msg_text ?user = JStr (js_trim textToSend)
      \<and> messages (fst (sendMessage eng net t_user t_reply textToSend (st, log)))
          = messages ?st1 @ [reply]
      \<and> \<not> isUser reply
      \<and> snd (sendMessage eng net t_user t_reply textToSend (st, log))
          = log @ [chat_request (currentDocumentId st) (js_trim textToSend)]"
    using begun whole reply sent by simp
  then have "\<exists>st1 user reply.
      sendMessage_begin (fst t_user) (snd t_user) textToSend st = Some st1
      \<and> messages st1 = messages st @ [user]
      \<and> isUser user \<and> msg_text user = JStr (js_trim textToSend)
      \<and> messages (fst (sendMessage eng net t_user t_reply textToSend (st, log)))
          = messages st1 @ [reply]
      \<and> \<not> isUser reply
      \<and> snd (sendMessage eng net t_user t_reply textToSend (st, log))
          = log @ [chat_request (currentDocumentId st) (js_trim textToSend)]"
    by blast
  with False show ?thesis
    by simp
qed

theorem sendMessage_effect_witness:
  "list_all is_js_space (ascii ''  '')
   \<and> sendMessage example_engine (\<lambda>r. Inl timeout_error) (1, 2) (3, 4) (ascii ''  '')
        (chat_initial 0, []) = (chat_initial 0, [])
   \<and> \<not> list_all is_js_space (ascii '' hi '')
   \<and> map msg_text (messages (fst (sendMessage example_engine (\<lambda>r. Inl timeout_error)
        (1, 2) (3, 4) (ascii '' hi '') (chat_initial 0, []))))
       = [JStr greeting, JStr (ascii ''hi''), JStr msg_timeout]
   \<and> snd (sendMessage example_engine (\<lambda>r. Inl timeout_error)
        (1, 2) (3, 4) (ascii '' hi '') (chat_initial 0, []))
       = [chat_request JNull (ascii ''hi'')]"
  using
    sendMessage_effect [of "ascii ''  ''" example_engine "\<lambda>r. Inl timeout_error"
      "(1, 2)" "(3, 4)" "chat_initial 0" "[]"]
    sendMessage_effect [of "ascii '' hi ''" example_engine "\<lambda>r. Inl timeout_error"
      "(1, 2)" "(3, 4)" "chat_initial 0" "[]"]
  by (simp add: sendMessage_def sendMessage_begin_def sendMessage_complete_def
      sendMessageToBackend_def axios_def try_catch_def chat_error_message_def
      timeout_error_def chat_initial_def js_trim_def is_js_space_def)

section \<open>Stepping through the matches\<close>

lemma js_rem_nonneg: "0 \<le> a \<Longrightarrow> 0 < b \<Longrightarrow> js_rem a b = a mod b"
  by (cases "a = 0") (simp_all add: js_rem_def)

lemma search_effect_inv:
  "search_effect eng st = Inr st' \<Longrightarrow>
   foundIds st' \<noteq> [] \<Longrightarrow> currentMatchIndex st' = 0"
  by (auto simp: search_effect_def split: if_splits sum.splits)

lemma handleNextMatch_index:
  "foundIds st \<noteq> [] \<Longrightarrow> 0 \<le> currentMatchIndex st \<Longrightarrow>
   handleNextMatch st = st\<lparr>currentMatchIndex :=
     (currentMatchIndex st + 1) mod int (length (foundIds st))\<rparr>"
  by (simp add: handleNextMatch_def js_rem_nonneg)

lemma handlePrevMatch_index:
  "foundIds st \<noteq> [] \<Longrightarrow> 0 \<le> currentMatchIndex st \<Longrightarrow>
   handlePrevMatch st = st\<lparr>currentMatchIndex :=
     (currentMatchIndex st - 1) mod int (length (foundIds st))\<rparr>"
proof -
  assume found: "foundIds st \<noteq> []" and nonneg: "0 \<le> currentMatchIndex st"
  let ?n = "int (length (foundIds st))"
  have n: "0 < ?n"
    using found by simp
  then have "0 \<le> currentMatchIndex st - 1 + ?n"
    using nonneg by linarith
  then have "js_rem (currentMatchIndex st - 1 + ?n) ?n = (currentMatchIndex st - 1 + ?n) mod ?n"
    using n by (rule js_rem_nonneg)
  also have "\<dots> = (currentMatchIndex st - 1) mod ?n"
    by simp
  finally show ?thesis
    using found by (simp add: handlePrevMatch_def)
qed

lemma search_step_in_range:
  "0 \<le> currentMatchIndex st \<Longrightarrow> search_step eng ev st = Inr st' \<Longrightarrow>
   index_in_range st' \<and> 0 \<le> currentMatchIndex st'"
proof (cases ev)
  case (SearchTextChanged t)
  assume "0 \<le> currentMatchIndex st" "search_step eng ev st = Inr st'"
  with SearchTextChanged show ?thesis
    by (auto simp: search_effect_def index_in_range_def split: if_splits sum.splits)
next
  case (MessagesChanged ms)
  assume "0 \<le> currentMatchIndex st" "search_step eng ev st = Inr st'"
  with MessagesChanged show ?thesis
    by (auto simp: search_effect_def index_in_range_def split: if_splits sum.splits)
next
  case PrevPressed
  assume nonneg: "0 \<le> currentMatchIndex st" and step: "search_step eng ev st = Inr st'"
  show ?thesis
  proof (cases "foundIds st = []")
    case True
    with PrevPressed step nonneg show ?thesis
      by (auto simp: handlePrevMatch_def index_in_range_def)
  next
    case False
    with PrevPressed step nonneg show ?thesis
      by (auto simp: handlePrevMatch_index index_in_range_def)
  qed
next
  case NextPressed
  assume nonneg: "0 \<le> currentMatchIndex st" and step: "search_step eng ev st = Inr st'"
  show ?thesis
  proof (cases "foundIds st = []")
    case True
    with NextPressed step nonneg show ?thesis
      by (auto simp: handleNextMatch_def index_in_range_def)
  next
    case False
    with NextPressed step nonneg show ?thesis
      by (auto simp: handleNextMatch_index index_in_range_def)
  qed
next
  case ClosePressed
  assume "0 \<le> currentMatchIndex st" "search_step eng ev st = Inr st'"
  with ClosePressed show ?thesis
    by (auto simp: search_effect_def closeSearch_def index_in_range_def
        split: if_splits sum.splits)
qed

lemma search_run_in_range:
  "0 \<le> currentMatchIndex st \<Longrightarrow> index_in_range st \<Longrightarrow>
   search_run eng evs st = Inr st' \<Longrightarrow>
   index_in_range st' \<and> 0 \<le> currentMatchIndex st'"
proof (induction evs arbitrary: st)
  case Nil
  then show ?case by simp
next
  case (Cons ev evs)
  from Cons.prems(3) obtain st1 where
    step: "search_step eng ev st = Inr st1" and rest: "search_run eng evs st1 = Inr st'"
    by (auto split: sum.splits)
  from search_step_in_range [OF Cons.prems(1) step]
  have "index_in_range st1" "0 \<le> currentMatchIndex st1"
    by simp_all
  with Cons.IH rest show ?case
    by blast
qed


text \<open>
  Claim C10. While foundIds is not empty and the index is within [0, length), handleNextMatch
  sets it to the index plus one modulo the length and handlePrevMatch to the index minus one
  modulo the length, so both wrap around and both keep it within the range, and neither
  changes foundIds; with an empty foundIds both leave the state as it is. When the effect
  that follows a change of the search text ends with a non-empty foundIds, the index is 0.
  Hence in every state the search cells can reach from the initial state the index is within
  the range whenever foundIds is not empty.
\<close>

theorem match_index_in_range:
  "(foundIds st \<noteq> [] \<and> 0 \<le> currentMatchIndex st
      \<and> currentMatchIndex st < int (length (foundIds st)) \<longrightarrow>
      currentMatchIndex (handleNextMatch st)
        = (currentMatchIndex st + 1) mod int (length (foundIds st))
      \<and> currentMatchIndex (handlePrevMatch st)
        = (currentMatchIndex st - 1) mod int (length (foundIds st))
      \<and> (currentMatchIndex st = int (length (foundIds st)) - 1 \<longrightarrow>
           currentMatchIndex (handleNextMatch st) = 0)
      \<and> (currentMatchIndex st = 0 \<longrightarrow>
           currentMatchIndex (handlePrevMatch st) = int (length (foundIds st)) - 1)
      \<and> index_in_range (handleNextMatch st) \<and> index_in_range (handlePrevMatch st)
      \<and> foundIds (handleNextMatch st) = foundIds st
      \<and> foundIds (handlePrevMatch st) = foundIds st)
   \<and> (foundIds st = [] \<longrightarrow> handleNextMatch st = st \<and> handlePrevMatch st = st)
   \<and> (search_effect eng (st\<lparr>searchText := t\<rparr>) = Inr st' \<and> foundIds st' \<noteq> []
        \<longrightarrow> currentMatchIndex st' = 0)
   \<and> (search_run eng evs (chat_initial now) = Inr st'' \<longrightarrow> index_in_range st'')"
proof -
  have handlers: "currentMatchIndex (handleNextMatch st)
        = (currentMatchIndex st + 1) mod int (length (foundIds st))
      \<and> currentMatchIndex (handlePrevMatch st)
        = (currentMatchIndex st - 1) mod int (length (foundIds st))
      \<and> (currentMatchIndex st = int (length (foundIds st)) - 1 \<longrightarrow>
           currentMatchIndex (handleNextMatch st) = 0)
      \<and> (currentMatchIndex st = 0 \<longrightarrow>
           currentMatchIndex (handlePrevMatch st) = int (length (foundIds st)) - 1)
      \<and> index_in_range (handleNextMatch st) \<and> index_in_range (handlePrevMatch st)
      \<and> foundIds (handleNextMatch st) = foundIds st
      \<and> foundIds (handlePrevMatch st) = foundIds st"
    if found: "foundIds st \<noteq> []" and nonneg: "0 \<le> currentMatchIndex st"
      and below: "currentMatchIndex st < int (length (foundIds st))"
  proof -
    let ?n = "int (length (foundIds st))"
    have n: "0 < ?n"
      using found by simp
    have last_prev: "(- 1) mod ?n = ?n - 1"
      using n by (simp add: zmod_minus1)
    from found nonneg n last_prev show ?thesis
      by (simp add: handleNextMatch_index handlePrevMatch_index index_in_range_def)
  qed
  have empty: "handleNextMatch st = st \<and> handlePrevMatch st = st" if "foundIds st = []"
    using that by (simp add: handleNextMatch_def handlePrevMatch_def)
  have reset: "currentMatchIndex st' = 0"
    if "search_effect eng (st\<lparr>searchText := t\<rparr>) = Inr st'" "foundIds st' \<noteq> []"
    using that by (rule search_effect_inv)
  have reachable: "index_in_range st''" if run: "search_run eng evs (chat_initial now) = Inr st''"
  proof -
    have "0 \<le> currentMatchIndex (chat_initial now)" "index_in_range (chat_initial now)"
      by (simp_all add: chat_initial_def index_in_range_def)
    from search_run_in_range [OF this run] show ?thesis
      by simp
  qed
  from handlers empty reset reachable show ?thesis
    by blast
qed

lemma greeting_has_exclamation: "js_includes greeting (ascii ''!'')"
  by (simp add: greeting_def)

lemma exclamation_not_blank: "js_trim (ascii ''!'') \<noteq> []"
  by (simp add: js_trim_def is_js_space_def)

theorem match_index_in_range_witness:
  "currentMatchIndex (handleNextMatch ((chat_initial 0)
       \<lparr>foundIds := [ascii ''1'', ascii ''7'', ascii ''9''], currentMatchIndex := 2\<rparr>)) = 0
   \<and> currentMatchIndex (handlePrevMatch ((chat_initial 0)
       \<lparr>foundIds := [ascii ''1'', ascii ''7'', ascii ''9''], currentMatchIndex := 0\<rparr>)) = 2
   \<and> handleNextMatch (chat_initial 0) = chat_initial 0
   \<and> search_run example_engine [SearchTextChanged (ascii ''!''), NextPressed] (chat_initial 0)
       = Inr ((chat_initial 0)\<lparr>searchText := ascii ''!'', foundIds := [ascii ''1'']\<rparr>)
   \<and> index_in_range ((chat_initial 0)\<lparr>searchText := ascii ''!'', foundIds := [ascii ''1'']\<rparr>)"
proof -
  let ?last = "(chat_initial 0)
       \<lparr>foundIds := [ascii ''1'', ascii ''7'', ascii ''9''], currentMatchIndex := 2\<rparr>"
  let ?first = "(chat_initial 0)
       \<lparr>foundIds := [ascii ''1'', ascii ''7'', ascii ''9''], currentMatchIndex := 0\<rparr>"
  let ?found = "(chat_initial 0)\<lparr>searchText := ascii ''!'', foundIds := [ascii ''1'']\<rparr>"
  have run: "search_run example_engine [SearchTextChanged (ascii ''!''), NextPressed] (chat_initial 0)
       = Inr ?found"
    using greeting_has_exclamation exclamation_not_blank
    by (simp add: search_effect_def handleNextMatch_def js_rem_def chat_initial_def)
  have "foundIds ?last \<noteq> [] \<and> 0 \<le> currentMatchIndex ?last
      \<and> currentMatchIndex ?last < int (length (foundIds ?last))"
    by simp
  with match_index_in_range [of ?last example_engine "[]" "chat_initial 0" "[]" 0 "chat_initial 0"]
  have nxt: "currentMatchIndex (handleNextMatch ?last) = 0"
    by simp
  have "foundIds ?first \<noteq> [] \<and> 0 \<le> currentMatchIndex ?first
      \<and> currentMatchIndex ?first < int (length (foundIds ?first))"
    by simp
  with match_index_in_range [of ?first example_engine "[]" "chat_initial 0" "[]" 0 "chat_initial 0"]
  have prv: "currentMatchIndex (handlePrevMatch ?first) = 2"
    by simp
  have "foundIds (chat_initial 0) = []"
    by (simp add: chat_initial_def)
  with match_index_in_range [of "chat_initial 0" example_engine "[]" "chat_initial 0" "[]" 0 "chat_initial 0"]
  have emp: "handleNextMatch (chat_initial 0) = chat_initial 0"
    by blast
  from run match_index_in_range [of "chat_initial 0" example_engine "[]" "chat_initial 0"
      "[SearchTextChanged (ascii ''!''), NextPressed]" 0 ?found]
  have inr: "index_in_range ?found"
    by blast
  from nxt prv emp run inr show ?thesis
    by blast
qed

section \<open>Listing the documents\<close>

lemma js_read_Some: "js_get v k = Some x \<Longrightarrow> js_read eng v k = Inr x"
  by (simp add: js_read_def)

lemma js_length_gt0_array: "js_length_gt0 eng (JArr xs) = Inr (xs \<noteq> [])"
  by (simp add: js_length_gt0_def js_read_def)

text \<open>
  Claim C3, as amended. For a successful listing response whose body has a truthy
  \<open>documents\<close> property, all three consumers take that property as the list. When the
  body is neither \<open>null\<close> nor \<open>undefined\<close> and the property is not truthy,
  DocumentListScreen takes the body itself if that is truthy, so a bare array is taken as
  the list (and an object without a list is taken as it is), and the empty list otherwise.
  DocumentListScreen and HomeScreen store the value they took in \<open>documents\<close>.
\<close>

theorem listing_shapes:
  "(js_get d (ascii ''documents'') = Some x \<and> js_truthy x \<longrightarrow>
      DocumentList_docs eng d = Inr x \<and> Home_docs eng d = Inr x \<and> Chat_docs eng d = Inr x)
   \<and> DocumentList_docs eng (JArr xs) = Inr (JArr xs)
   \<and> (js_get d (ascii ''documents'') = Some x \<and> \<not> js_truthy x \<longrightarrow>
        DocumentList_docs eng d = Inr (if js_truthy d then d else JArr []))
   \<and> (net documents_request = Inr resp \<and> DocumentList_docs eng (data resp) = Inr docs \<longrightarrow>
        dl_documents (fst (DocumentList_fetchDocuments eng net (st, log))) = docs)
   \<and> (net documents_request = Inr resp \<and> Home_docs eng (data resp) = Inr docs \<longrightarrow>
        home_documents (fst (Home_fetchDocuments eng fmt net (hst, log))) = docs)"
proof -
  have wrapped: "DocumentList_docs eng d = Inr x \<and> Home_docs eng d = Inr x \<and> Chat_docs eng d = Inr x"
    if "js_get d (ascii ''documents'') = Some x" "js_truthy x"
    using that
    by (simp add: DocumentList_docs_def Home_docs_def Chat_docs_def js_read_def js_or_def)
  have bare: "DocumentList_docs eng (JArr xs) = Inr (JArr xs)"
    by (simp add: DocumentList_docs_def js_read_def js_or_def)
  have other: "DocumentList_docs eng d = Inr (if js_truthy d then d else JArr [])"
    if "js_get d (ascii ''documents'') = Some x" "\<not> js_truthy x"
    using that by (simp add: DocumentList_docs_def js_read_def js_or_def)
  have stored: "dl_documents (fst (DocumentList_fetchDocuments eng net (st, log))) = docs"
    if "net documents_request = Inr resp" "DocumentList_docs eng (data resp) = Inr docs"
    using that by (simp add: DocumentList_fetchDocuments_def axios_def)
  have home: "home_documents (store_documents eng fmt (data resp) hst) = docs"
    if "Home_docs eng (data resp) = Inr docs"
    using that by (simp add: store_documents_def Let_def split: sum.split bool.split)
  have home_stored: "home_documents (fst (Home_fetchDocuments eng fmt net (hst, log))) = docs"
    if "net documents_request = Inr resp" "Home_docs eng (data resp) = Inr docs"
    using that home by (simp add: Home_fetchDocuments_def axios_def)
  from wrapped bare other stored home_stored show ?thesis
    by blast
qed

theorem listing_shapes_witness:
  "DocumentList_docs example_engine (JObj [(ascii ''documents'', JArr [example_document])])
     = Inr (JArr [example_document])
   \<and> Home_docs example_engine (JObj [(ascii ''documents'', JArr [example_document])])
     = Inr (JArr [example_document])
   \<and> Chat_docs example_engine (JObj [(ascii ''documents'', JArr [example_document])])
     = Inr (JArr [example_document])
   \<and> DocumentList_docs example_engine (JArr [example_document]) = Inr (JArr [example_document])
   \<and> DocumentList_docs example_engine (JStr []) = Inr (JArr [])"
proof -
  let ?wrapped = "JObj [(ascii ''documents'', JArr [example_document])]"
  have "js_get ?wrapped (ascii ''documents'') = Some (JArr [example_document])
      \<and> js_truthy (JArr [example_document])"
    by simp
  with listing_shapes [of ?wrapped "JArr [example_document]" example_engine "[example_document]"]
  have wrapped: "DocumentList_docs example_engine ?wrapped = Inr (JArr [example_document])
      \<and> Home_docs example_engine ?wrapped = Inr (JArr [example_document])
      \<and> Chat_docs example_engine ?wrapped = Inr (JArr [example_document])"
    by blast
  have bare: "DocumentList_docs example_engine (JArr [example_document]) = Inr (JArr [example_document])"
    using listing_shapes [of ?wrapped "JArr [example_document]" example_engine "[example_document]"]
    by blast
  have "js_get (JStr []) (ascii ''documents'') = Some JUndefined \<and> \<not> js_truthy JUndefined"
    by simp
  with listing_shapes [of "JStr []" JUndefined example_engine "[]"]
  have "DocumentList_docs example_engine (JStr []) = Inr (if js_truthy (JStr []) then JStr [] else JArr [])"
    by blast
  then have empty: "DocumentList_docs example_engine (JStr []) = Inr (JArr [])"
    by simp
  from wrapped bare empty show ?thesis
    by blast
qed

text \<open>
  Claim C3 as it was written fails. A body that is an object without a \<open>documents\<close>
  property is neither wrapped nor a bare array, yet DocumentListScreen takes the object
  itself, not the empty list; for the body \<open>null\<close> the read of the property throws
  and no list is taken at all; and HomeScreen and ChatScreen take the empty list for a bare
  array of one document.
\<close>

theorem listing_shapes_differ:
  "DocumentList_docs example_engine (JObj []) = Inr (JObj [])
   \<and> JObj [] \<noteq> JArr []
   \<and> DocumentList_docs example_engine JNull
       = Inl (type_error (ascii ''Cannot read property''))
   \<and> Home_docs example_engine (JArr [example_document]) = Inr (JArr [])
   \<and> Chat_docs example_engine (JArr [example_document]) = Inr (JArr [])
   \<and> JArr [] \<noteq> JArr [example_document]
   \<and> DocumentList_docs example_engine (JArr [example_document]) = Inr (JArr [example_document])"
  by (simp add: DocumentList_docs_def Home_docs_def Chat_docs_def js_read_def js_or_def
      example_engine_def)

text \<open>
  Claim C4. When the listing request fails (axios rejects, whatever the error), fetchDocuments
  of DocumentListScreen and of HomeScreen change nothing but the two loading flags: the
  documents loaded before are still there, and in HomeScreen the notifications as well.
\<close>

theorem failed_listing_keeps_documents:
  "net documents_request = Inl error \<Longrightarrow>
   DocumentList_fetchDocuments eng net (st, log)
     = (st\<lparr>dl_loading := False, dl_refreshing := False\<rparr>, log @ [documents_request])
   \<and> dl_documents (fst (DocumentList_fetchDocuments eng net (st, log))) = dl_documents st
   \<and> Home_fetchDocuments eng fmt net (hst, log)
     = (hst\<lparr>home_loading := False, home_refreshing := False\<rparr>, log @ [documents_request])
   \<and> home_documents (fst (Home_fetchDocuments eng fmt net (hst, log))) = home_documents hst"
  by (simp add: DocumentList_fetchDocuments_def Home_fetchDocuments_def axios_def)

theorem failed_listing_keeps_documents_witness:
  "dl_documents (fst (DocumentList_fetchDocuments example_engine (\<lambda>r. Inl timeout_error)
      (\<lparr>dl_searchText = [], selectedFilter = [], dl_documents = JArr [example_document],
        dl_loading = False, dl_refreshing = True\<rparr>, []))) = JArr [example_document]
   \<and> home_documents (fst (Home_fetchDocuments example_engine (\<lambda>v. v) (\<lambda>r. Inl timeout_error)
      (home_initial\<lparr>home_documents := JArr [example_document]\<rparr>, [])))
     = JArr [example_document]"
  using failed_listing_keeps_documents [of "\<lambda>r. Inl timeout_error" timeout_error example_engine
    "\<lparr>dl_searchText = [], selectedFilter = [], dl_documents = JArr [example_document],
        dl_loading = False, dl_refreshing = True\<rparr>" "[]" "\<lambda>v. v"
    "home_initial\<lparr>home_documents := JArr [example_document]\<rparr>"]
  by simp

text \<open>
  Claim C5. When the listing response carries a non-empty list of documents, ChatScreen's
  fetchLatestDocument sets currentDocumentId to the \<open>document_id\<close> of the element at
  index 0; for an empty list it leaves the state as it is. HomeScreen's latestDoc is the
  element at index 0 of a non-empty \<open>documents\<close> and \<open>null\<close> for the empty list.
\<close>

theorem latest_document_is_first:
  "(net latest_document_request = Inr resp
      \<and> js_get (data resp) (ascii ''documents'') = Some (JArr (doc # rest))
      \<and> js_get doc (ascii ''document_id'') = Some docId \<longrightarrow>
      currentDocumentId (fst (fetchLatestDocument eng net t_id t_stamp (st, log))) = docId)
   \<and> (net latest_document_request = Inr resp
      \<and> js_get (data resp) (ascii ''documents'') = Some (JArr []) \<longrightarrow>
      fst (fetchLatestDocument eng net t_id t_stamp (st, log)) = st)
   \<and> Home_recent_latest eng (JArr (doc # rest)) = Inr (JArr (take 3 (doc # rest)), doc)
   \<and> Home_recent_latest eng (JArr []) = Inr (JArr [], JNull)"
proof -
  have first: "currentDocumentId (select_latest eng t_id t_stamp (data resp) st) = docId"
    if docs: "js_get (data resp) (ascii ''documents'') = Some (JArr (doc # rest))"
      and docId: "js_get doc (ascii ''document_id'') = Some docId"
  proof -
    have "Chat_docs eng (data resp) = Inr (JArr (doc # rest))"
      using docs by (simp add: Chat_docs_def js_read_def js_or_def)
    moreover obtain fname where "js_read eng doc (ascii ''filename'') = Inr fname"
      using docId js_get_same_value [of doc "ascii ''document_id''" docId "ascii ''filename''"]
      by (auto simp: js_read_def)
    ultimately show ?thesis
      using docId
      by (simp add: select_latest_def js_length_gt0_array js_read_Some Let_def split: sum.split)
  qed
  have none: "select_latest eng t_id t_stamp (data resp) st = st"
    if "js_get (data resp) (ascii ''documents'') = Some (JArr [])"
    using that
    by (simp add: select_latest_def Chat_docs_def js_read_def js_or_def js_length_gt0_array)
  have fetched: "fst (fetchLatestDocument eng net t_id t_stamp (st, log))
      = select_latest eng t_id t_stamp (data resp) st"
    if "net latest_document_request = Inr resp"
    using that by (simp add: fetchLatestDocument_def axios_def)
  from first none fetched show ?thesis
    by simp
qed

theorem latest_document_is_first_witness:
  "currentDocumentId (fst (fetchLatestDocument example_engine
      (\<lambda>r. Inr (ok (JObj [(ascii ''documents'', JArr [example_document, JNull])])))
      5 6 (chat_initial 0, []))) = JStr (ascii ''d1'')
   \<and> fst (fetchLatestDocument example_engine
      (\<lambda>r. Inr (ok (JObj [(ascii ''documents'', JArr [])]))) 5 6 (chat_initial 0, []))
     = chat_initial 0"
proof -
  let ?full = "ok (JObj [(ascii ''documents'', JArr [example_document, JNull])])"
  let ?empty = "ok (JObj [(ascii ''documents'', JArr [])])"
  have "(\<lambda>r. Inr ?full) latest_document_request = Inr ?full
      \<and> js_get (data ?full) (ascii ''documents'') = Some (JArr (example_document # [JNull]))
      \<and> js_get example_document (ascii ''document_id'') = Some (JStr (ascii ''d1''))"
    by (simp add: ok_def example_document_def)
  with latest_document_is_first [of "\<lambda>r. Inr ?full" ?full example_document "[JNull]"
      "JStr (ascii ''d1'')" example_engine 5 6 "chat_initial 0" "[]"]
  have full: "currentDocumentId (fst (fetchLatestDocument example_engine (\<lambda>r. Inr ?full)
      5 6 (chat_initial 0, []))) = JStr (ascii ''d1'')"
    by blast
  have "(\<lambda>r. Inr ?empty) latest_document_request = Inr ?empty
      \<and> js_get (data ?empty) (ascii ''documents'') = Some (JArr [])"
    by (simp add: ok_def)
  with latest_document_is_first [of "\<lambda>r. Inr ?empty" ?empty example_document "[]"
      JNull example_engine 5 6 "chat_initial 0" "[]"]
  have empty: "fst (fetchLatestDocument example_engine (\<lambda>r. Inr ?empty) 5 6 (chat_initial 0, []))
      = chat_initial 0"
    by blast
  from full empty show ?thesis
    by blast
qed


end
